theory Spec2Isabelle
  imports Main
begin

section \<open>Python values and exceptions\<close>

text \<open>
  The exceptions that the modelled code of \<^verbatim>\<open>app/services/github_service.py\<close> and
  \<^verbatim>\<open>app/models\<close> can raise. A function that can raise returns \<open>py_error + 'a\<close>,
  with \<open>Inl\<close> for the exception.
\<close>

datatype py_error = KeyError | ValueError | TypeError | AttributeError | OverflowError

section \<open>Text: characters, \<^verbatim>\<open>str.lower\<close>, substring test\<close>

text \<open>
  Text is a \<open>string\<close> whose characters are the code points 0 to 255. On these,
  \<^verbatim>\<open>str.lower\<close> maps \<^verbatim>\<open>A-Z\<close> to \<^verbatim>\<open>a-z\<close> and the upper-case letters 192 to 222
  (all of that range but the multiplication sign 215) to the letters 32 above them, and
  leaves every other character alone.
\<close>

definition is_upper :: "char \<Rightarrow> bool" where
  "is_upper c =
     (let n = (of_char c :: int)
      in (65 \<le> n \<and> n \<le> 90) \<or> (192 \<le> n \<and> n \<le> 222 \<and> n \<noteq> 215))"

definition lower_char :: "char \<Rightarrow> char" where
  "lower_char c = (if is_upper c then char_of ((of_char c :: int) + 32) else c)"

definition lower :: "string \<Rightarrow> string" where
  "lower s = map lower_char s"

definition is_digit :: "char \<Rightarrow> bool" where
  "is_digit c = (48 \<le> (of_char c :: int) \<and> (of_char c :: int) \<le> 57)"

text \<open>
  The class \<^verbatim>\<open>\s\<close> of a \<^verbatim>\<open>str\<close> pattern: the characters 9 to 13, 28 to 31, the
  blank, the next-line character 133 and the no-break space 160. The class \<^verbatim>\<open>\d\<close> holds
  the ten digits only.
\<close>

definition is_space :: "char \<Rightarrow> bool" where
  "is_space c =
     (let n = (of_char c :: int)
      in (9 \<le> n \<and> n \<le> 13) \<or> (28 \<le> n \<and> n \<le> 32) \<or> n = 133 \<or> n = 160)"

text \<open>\<^verbatim>\<open>keyword in text\<close> on strings: \<open>k\<close> occurs in \<open>t\<close> as a contiguous run.\<close>

fun contains :: "string \<Rightarrow> string \<Rightarrow> bool" where
  "contains [] k = (k = [])"
| "contains (c # cs) k = (take (length k) (c # cs) = k \<or> contains cs k)"

text \<open>\<^verbatim>\<open>s.replace(old, "")\<close> for a one-character \<open>old\<close>.\<close>

definition remove_char :: "char \<Rightarrow> string \<Rightarrow> string" where
  "remove_char c s = filter (\<lambda>x. x \<noteq> c) s"

section \<open>Regular expressions: the backtracking matcher of \<^verbatim>\<open>re\<close>\<close>

text \<open>
  The constructs that the five bounty patterns use. \<open>Lit\<close> compares case-insensitively
  (the patterns are applied with \<^verbatim>\<open>re.IGNORECASE\<close>); \<open>Among\<close> is a bracket class given
  by its members; \<open>Opt\<close>, \<open>Star\<close>, \<open>Plus\<close> and \<open>Rep\<close> are the greedy \<^verbatim>\<open>?\<close>, \<^verbatim>\<open>*\<close>,
  \<^verbatim>\<open>+\<close> and \<^verbatim>\<open>{n}\<close>; \<open>Group\<close> is the capturing group (each pattern has exactly one);
  non-capturing groups are plain nesting.
\<close>

datatype regex =
    Lit char
  | Digit
  | Space
  | Among "char list"
  | Seq regex regex
  | Alt regex regex
  | Opt regex
  | Star regex
  | Plus regex
  | Rep nat regex
  | Group regex

text \<open>
  A matcher state is the text captured by the group so far and the text still to be read.
  \<open>rmatch r st\<close> lists the states in which \<open>r\<close> can finish when started in \<open>st\<close>, in the
  order in which the backtracking matcher tries them: the first is the match it reports.
\<close>

type_synonym mstate = "string option \<times> string"

fun star_iter :: "nat \<Rightarrow> (mstate \<Rightarrow> mstate list) \<Rightarrow> mstate \<Rightarrow> mstate list" where
  "star_iter 0 f st = [st]"
| "star_iter (Suc n) f st =
     concat (map (\<lambda>st'. if length (snd st') < length (snd st) then star_iter n f st' else [])
                 (f st)) @ [st]"

fun rep_iter :: "nat \<Rightarrow> (mstate \<Rightarrow> mstate list) \<Rightarrow> mstate \<Rightarrow> mstate list" where
  "rep_iter 0 f st = [st]"
| "rep_iter (Suc n) f st = concat (map (rep_iter n f) (f st))"

fun rmatch :: "regex \<Rightarrow> mstate \<Rightarrow> mstate list" where
  "rmatch (Lit c) st =
     (case snd st of [] \<Rightarrow> []
      | x # xs \<Rightarrow> if lower_char x = lower_char c then [(fst st, xs)] else [])"
| "rmatch Digit st =
     (case snd st of [] \<Rightarrow> [] | x # xs \<Rightarrow> if is_digit x then [(fst st, xs)] else [])"
| "rmatch Space st =
     (case snd st of [] \<Rightarrow> [] | x # xs \<Rightarrow> if is_space x then [(fst st, xs)] else [])"
| "rmatch (Among cs) st =
     (case snd st of [] \<Rightarrow> [] | x # xs \<Rightarrow> if x \<in> set cs then [(fst st, xs)] else [])"
| "rmatch (Seq a b) st = concat (map (rmatch b) (rmatch a st))"
| "rmatch (Alt a b) st = rmatch a st @ rmatch b st"
| "rmatch (Opt a) st = rmatch a st @ [st]"
| "rmatch (Star a) st = star_iter (length (snd st)) (rmatch a) st"
| "rmatch (Plus a) st =
     concat (map (\<lambda>st'. star_iter (length (snd st')) (rmatch a) st') (rmatch a st))"
| "rmatch (Rep n a) st = rep_iter n (rmatch a) st"
| "rmatch (Group a) st =
     map (\<lambda>st'. (Some (take (length (snd st) - length (snd st')) (snd st)), snd st'))
         (rmatch a st)"

text \<open>
  \<^verbatim>\<open>re.findall\<close> for a pattern with one group: scan from the left; at each position take
  the first way the pattern matches, report the group's text and go on after the match;
  where nothing matches move one character on. (No bounty pattern matches the empty string;
  an empty match would be reported and the scan moved one character on.)
\<close>

function findall :: "regex \<Rightarrow> string \<Rightarrow> string list" where
  "findall r s =
     (case rmatch r (None, s) of
        [] \<Rightarrow> (if s = [] then [] else findall r (tl s))
      | st # _ \<Rightarrow>
          (case fst st of None \<Rightarrow> [] | Some g \<Rightarrow> g) #
          (if length (snd st) < length s then findall r (snd st)
           else if s = [] then [] else findall r (tl s)))"
  by pat_completeness auto
termination
  by (relation "measure (\<lambda>(r, s). length s)") auto

declare findall.simps [simp del]

text \<open>A literal word, character by character.\<close>

fun word :: "string \<Rightarrow> regex \<Rightarrow> regex" where
  "word [] k = k"
| "word (c # cs) k = Seq (Lit c) (word cs k)"

definition num_class :: regex where
  "num_class = Among ''0123456789,''"

definition digit_class :: regex where
  "digit_class = Among ''0123456789''"

text \<open>
  The list \<^verbatim>\<open>self.bounty_patterns\<close>, in its order:
  \<^verbatim>\<open>\$([0-9,]+(?:\.[0-9]{2})?)\<close>, \<^verbatim>\<open>(\d+)\s*(?:USD|dollars?)\<close>,
  \<^verbatim>\<open>bounty:?\s*\$?([0-9,]+)\<close>, \<^verbatim>\<open>reward:?\s*\$?([0-9,]+)\<close>,
  \<^verbatim>\<open>prize:?\s*\$?([0-9,]+)\<close>.
\<close>

definition pat_dollar :: regex where
  "pat_dollar =
     Seq (Lit CHR ''$'')
         (Group (Seq (Plus num_class) (Opt (Seq (Lit CHR ''.'') (Rep 2 digit_class)))))"

definition pat_usd :: regex where
  "pat_usd =
     Seq (Group (Plus Digit))
         (Seq (Star Space)
              (Alt (word ''USD'' (Rep 0 Digit))
                   (word ''dollar'' (Opt (Lit CHR ''s'')))))"

definition pat_keyword :: "string \<Rightarrow> regex" where
  "pat_keyword kw =
     word kw (Seq (Opt (Lit CHR '':''))
                  (Seq (Star Space) (Seq (Opt (Lit CHR ''$'')) (Group (Plus num_class)))))"

definition bounty_patterns :: "regex list" where
  "bounty_patterns =
     [pat_dollar, pat_usd, pat_keyword ''bounty'', pat_keyword ''reward'', pat_keyword ''prize'']"

section \<open>Floating point: \<^verbatim>\<open>float(str)\<close>, \<^verbatim>\<open>amount * 100\<close>, \<^verbatim>\<open>int(float)\<close>\<close>

text \<open>
  A Python \<^verbatim>\<open>float\<close> is an IEEE 754 binary64 number. The values that arise here are
  not negative: \<open>Finite m e\<close> is the number \<open>m * 2 ^ e\<close> (\<open>m * 2 powr e\<close> for negative
  \<open>e\<close>) with \<open>m < 2 ^ 53\<close>, and \<open>Infinity\<close> is \<^verbatim>\<open>inf\<close>.
\<close>

datatype pyfloat = Finite int int | Infinity

text \<open>\<^verbatim>\<open>int.bit_length\<close>: the number of binary digits of a positive integer.\<close>

function bit_length :: "int \<Rightarrow> int" where
  "bit_length n = (if n \<le> 0 then 0 else 1 + bit_length (n div 2))"
  by pat_completeness auto
termination
  by (relation "measure nat") auto

declare bit_length.simps [simp del]

text \<open>The fraction \<open>p / q\<close> (\<open>0 \<le> p\<close>, \<open>0 < q\<close>) rounded to the nearest integer, a tie to the even one.\<close>

definition round_half_even :: "int \<Rightarrow> int \<Rightarrow> int" where
  "round_half_even p q =
     (let k = p div q; r = p mod q
      in if 2 * r < q then k
         else if q < 2 * r then k + 1
         else if even k then k else k + 1)"

text \<open>Numerator and denominator of \<open>(p / q) / 2 ^ e\<close>.\<close>

definition scaled :: "int \<Rightarrow> int \<Rightarrow> int \<Rightarrow> int \<times> int" where
  "scaled p q e = (if 0 \<le> e then (p, q * 2 ^ nat e) else (p * 2 ^ nat (- e), q))"

text \<open>
  \<open>to_double p q\<close> is the binary64 number nearest to \<open>p / q\<close> (round to nearest, ties to
  even): the exponent \<open>e\<close> is the one with \<open>2 ^ 52 \<le> (p / q) / 2 ^ e < 2 ^ 53\<close>, not below
  the subnormal exponent \<open>- 1074\<close>; a result of \<open>2 ^ 1024\<close> or more is \<^verbatim>\<open>inf\<close>.
\<close>

definition to_double :: "int \<Rightarrow> int \<Rightarrow> pyfloat" where
  "to_double p q =
     (if p = 0 then Finite 0 0
      else
        let e1 = bit_length p - bit_length q - 52;
            e2 = (if 2 ^ 52 * snd (scaled p q e1) \<le> fst (scaled p q e1) then e1 else e1 - 1);
            e = max e2 (- 1074);
            m = round_half_even (fst (scaled p q e)) (snd (scaled p q e))
        in if 1024 < bit_length m + e then Infinity else Finite m e)"

text \<open>The product of a float and a positive integer, correctly rounded.\<close>

fun fmul :: "pyfloat \<Rightarrow> int \<Rightarrow> pyfloat" where
  "fmul Infinity n = Infinity"
| "fmul (Finite m e) n =
     (if 0 \<le> e then to_double (m * n * 2 ^ nat e) 1 else to_double (m * n) (2 ^ nat (- e)))"

text \<open>\<^verbatim>\<open>int(x)\<close> truncates; on \<^verbatim>\<open>inf\<close> it raises \<^verbatim>\<open>OverflowError\<close>.\<close>

fun int_of_float :: "pyfloat \<Rightarrow> py_error + int" where
  "int_of_float Infinity = Inl OverflowError"
| "int_of_float (Finite m e) =
     Inr (if 0 \<le> e then m * 2 ^ nat e else m div 2 ^ nat (- e))"

text \<open>
  The conversion that the specification words as \<^verbatim>\<open>round(amount * 100)\<close>, for
  comparison with the code's \<^verbatim>\<open>int(amount * 100)\<close>: \<^verbatim>\<open>round(x)\<close> rounds to the
  nearest integer, a tie to the even one.
\<close>

fun spec_round :: "pyfloat \<Rightarrow> py_error + int" where
  "spec_round Infinity = Inl OverflowError"
| "spec_round (Finite m e) =
     Inr (if 0 \<le> e then m * 2 ^ nat e else round_half_even m (2 ^ nat (- e)))"

text \<open>The number that a string of decimal digits denotes.\<close>

definition digits_value :: "string \<Rightarrow> int" where
  "digits_value ds = foldl (\<lambda>acc c. 10 * acc + ((of_char c :: int) - 48)) 0 ds"

text \<open>
  \<^verbatim>\<open>float(s)\<close> on the strings that a match of a bounty pattern leaves once its commas are
  removed: decimal digits with at most one point among them. Such a string with at least
  one digit is the correctly rounded decimal number; without any digit, or with another
  character in it, the string is taken as one that \<^verbatim>\<open>float\<close> rejects (\<^verbatim>\<open>ValueError\<close>).
\<close>

definition py_float :: "string \<Rightarrow> py_error + pyfloat" where
  "py_float s =
     (let ip = takeWhile (\<lambda>c. c \<noteq> CHR ''.'') s;
          fp = drop (Suc (length ip)) s
      in if list_all is_digit (ip @ fp) \<and> ip @ fp \<noteq> []
         then Inr (to_double (digits_value (ip @ fp)) (10 ^ length fp))
         else Inl ValueError)"

section \<open>BountyExtractor\<close>

text \<open>
  The body of the inner loop of \<^verbatim>\<open>extract_bounty_amount\<close> for one match: a
  \<^verbatim>\<open>ValueError\<close> or \<^verbatim>\<open>TypeError\<close> is caught and the match skipped; any other
  exception leaves the function.
\<close>

definition match_cents :: "string \<Rightarrow> py_error + int option" where
  "match_cents m =
     (let amount_str = remove_char CHR '' '' (remove_char CHR '','' m)
      in case py_float amount_str of
           Inl e \<Rightarrow> (if e = ValueError \<or> e = TypeError then Inr None else Inl e)
         | Inr amount \<Rightarrow>
             (case int_of_float (fmul amount 100) of
                Inl e \<Rightarrow> (if e = ValueError \<or> e = TypeError then Inr None else Inl e)
              | Inr amount_cents \<Rightarrow> Inr (Some amount_cents)))"

fun scan_matches :: "string list \<Rightarrow> int \<Rightarrow> py_error + int" where
  "scan_matches [] max_amount = Inr max_amount"
| "scan_matches (m # ms) max_amount =
     (case match_cents m of
        Inl e \<Rightarrow> Inl e
      | Inr None \<Rightarrow> scan_matches ms max_amount
      | Inr (Some amount_cents) \<Rightarrow> scan_matches ms (max max_amount amount_cents))"

fun scan_patterns :: "regex list \<Rightarrow> string \<Rightarrow> int \<Rightarrow> py_error + int" where
  "scan_patterns [] text max_amount = Inr max_amount"
| "scan_patterns (p # ps) text max_amount =
     (case scan_matches (findall p text) max_amount of
        Inl e \<Rightarrow> Inl e
      | Inr max_amount' \<Rightarrow> scan_patterns ps text max_amount')"

definition extract_bounty_amount :: "string \<Rightarrow> py_error + int" where
  "extract_bounty_amount text =
     (if text = [] then Inr 0 else scan_patterns bounty_patterns (lower text) 0)"

text \<open>The dictionary \<^verbatim>\<open>sources\<close> of \<^verbatim>\<open>determine_bounty_source\<close>, in insertion order.\<close>

definition sources :: "(string \<times> string list) list" where
  "sources =
     [(''bountysource'', [''bountysource'', ''bounty source'']),
      (''gitcoin'', [''gitcoin'']),
      (''algora'', [''algora'']),
      (''console'', [''console.dev'']),
      (''devcash'', [''devcash'']),
      (''github_sponsors'', [''github sponsors'', ''sponsor'']),
      (''custom'', [''bounty'', ''reward'', ''prize''])]"

fun first_source :: "(string \<times> string list) list \<Rightarrow> string \<Rightarrow> string option" where
  "first_source [] text = None"
| "first_source ((source, keywords) # rest) text =
     (if list_ex (\<lambda>keyword. contains text keyword) keywords then Some source
      else first_source rest text)"

definition determine_bounty_source :: "string \<Rightarrow> string option" where
  "determine_bounty_source text =
     (if text = [] then None else first_source sources (lower text))"

section \<open>Upstream payloads\<close>

text \<open>
  A key of a JSON object is absent, present with \<^verbatim>\<open>null\<close>, or present with a value of
  the type that the upstream schema gives it. A Python value that may be \<^verbatim>\<open>None\<close> is an
  \<open>option\<close>.
\<close>

datatype 'a field = Missing | Null | Val 'a

text \<open>\<^verbatim>\<open>d.get(key, default)\<close> and \<^verbatim>\<open>d[key]\<close>.\<close>

definition get_or :: "'a field \<Rightarrow> 'a option \<Rightarrow> 'a option" where
  "get_or f d = (case f of Missing \<Rightarrow> d | Null \<Rightarrow> None | Val v \<Rightarrow> Some v)"

definition subscript :: "'a field \<Rightarrow> py_error + 'a option" where
  "subscript f = (case f of Missing \<Rightarrow> Inl KeyError | Null \<Rightarrow> Inr None | Val v \<Rightarrow> Inr (Some v))"

text \<open>
  What an \<^verbatim>\<open>INSERT\<close> stores in a column that declares a default: the ORM leaves an
  attribute that is \<^verbatim>\<open>None\<close> out of the statement, so the default is stored. (An
  \<^verbatim>\<open>UPDATE\<close> stores \<^verbatim>\<open>NULL\<close> for it.)
\<close>

definition or_default :: "'a option \<Rightarrow> 'a \<Rightarrow> 'a option" where
  "or_default v d = (case v of None \<Rightarrow> Some d | Some x \<Rightarrow> Some x)"

text \<open>
  A timestamp string is kept as what \<^verbatim>\<open>datetime.fromisoformat\<close> makes of it (after
  \<^verbatim>\<open>Z\<close> is replaced by \<^verbatim>\<open>+00:00\<close>): \<open>Iso t\<close> is a string it accepts, denoting the
  instant \<open>t\<close> in seconds; \<open>Malformed\<close> is a non-empty string it rejects; \<open>Blank\<close> is the
  empty string, which it rejects too and which is falsy. A \<^verbatim>\<open>datetime\<close> is its instant.
\<close>

datatype iso_string = Iso int | Malformed | Blank

text \<open>\<^verbatim>\<open>datetime.fromisoformat(d[key].replace("Z", "+00:00"))\<close>.\<close>

definition parse_required :: "iso_string field \<Rightarrow> py_error + int" where
  "parse_required f =
     (case f of
        Missing \<Rightarrow> Inl KeyError
      | Null \<Rightarrow> Inl AttributeError
      | Val (Iso t) \<Rightarrow> Inr t
      | Val Malformed \<Rightarrow> Inl ValueError
      | Val Blank \<Rightarrow> Inl ValueError)"

text \<open>
  \<^verbatim>\<open>if d.get(key): x = datetime.fromisoformat(d[key].replace("Z", "+00:00"))\<close>: the
  result \<open>None\<close> is no assignment.
\<close>

definition parse_if_present :: "iso_string field \<Rightarrow> py_error + int option" where
  "parse_if_present f =
     (case f of
        Val (Iso t) \<Rightarrow> Inr (Some t)
      | Val Malformed \<Rightarrow> Inl ValueError
      | Val Blank \<Rightarrow> Inr None
      | Missing \<Rightarrow> Inr None
      | Null \<Rightarrow> Inr None)"

text \<open>\<^verbatim>\<open>str(n)\<close> of an integer, \<^verbatim>\<open>str(d["id"])\<close>, and a value inside an f-string.\<close>

function str_pos :: "int \<Rightarrow> string" where
  "str_pos n =
     (if n < 10 then [char_of (48 + n)] else str_pos (n div 10) @ [char_of (48 + n mod 10)])"
  by pat_completeness auto
termination
  by (relation "measure nat") auto

declare str_pos.simps [simp del]

definition str_int :: "int \<Rightarrow> string" where
  "str_int n = (if n < 0 then CHR ''-'' # str_pos (- n) else str_pos n)"

definition str_id :: "int field \<Rightarrow> py_error + string" where
  "str_id f =
     (case f of Missing \<Rightarrow> Inl KeyError | Null \<Rightarrow> Inr ''None'' | Val n \<Rightarrow> Inr (str_int n))"

definition fmt :: "string option \<Rightarrow> string" where
  "fmt v = (case v of None \<Rightarrow> ''None'' | Some s \<Rightarrow> s)"

text \<open>\<^verbatim>\<open>s.split(sep)\<close> for a one-character separator.\<close>

fun split_on :: "char \<Rightarrow> string \<Rightarrow> string list" where
  "split_on c [] = [[]]"
| "split_on c (x # xs) =
     (if x = c then [] # split_on c xs
      else (case split_on c xs of [] \<Rightarrow> [[x]] | p # ps \<Rightarrow> (x # p) # ps))"

record raw_user =
  login :: "string field"
  avatar_url :: "string field"

record raw_label =
  ld_name :: "string field"
  ld_color :: "string field"
  ld_description :: "string field"

record raw_issue =
  item_id :: "int field"
  item_number :: "int field"
  item_title :: "string field"
  item_body :: "string field"
  item_html_url :: "string field"
  item_url :: "string field"
  item_repository_url :: "string field"
  item_state :: "string field"
  item_pull_request :: "unit field"
  item_user :: "raw_user field"
  item_assignee :: "raw_user field"
  item_comments :: "int field"
  item_labels :: "raw_label list field"
  item_created_at :: "iso_string field"
  item_updated_at :: "iso_string field"
  item_closed_at :: "iso_string field"

record raw_license =
  lic_name :: "string field"
  lic_spdx_id :: "string field"

record raw_repo =
  rd_id :: "int field"
  rd_name :: "string field"
  rd_description :: "string field"
  rd_html_url :: "string field"
  rd_clone_url :: "string field"
  rd_ssh_url :: "string field"
  rd_private :: "bool field"
  rd_fork :: "bool field"
  rd_archived :: "bool field"
  rd_disabled :: "bool field"
  rd_language :: "string field"
  rd_stargazers_count :: "int field"
  rd_forks_count :: "int field"
  rd_watchers_count :: "int field"
  rd_open_issues_count :: "int field"
  rd_size :: "int field"
  rd_license :: "raw_license field"
  rd_created_at :: "iso_string field"
  rd_updated_at :: "iso_string field"
  rd_pushed_at :: "iso_string field"

record raw_comment =
  cd_id :: "int field"
  cd_body :: "string field"
  cd_html_url :: "string field"
  cd_user :: "raw_user field"
  cd_author_association :: "string field"
  cd_created_at :: "iso_string field"
  cd_updated_at :: "iso_string field"

text \<open>The body of a search response: an object that may have the key \<^verbatim>\<open>items\<close>.\<close>

record search_page =
  items :: "raw_issue list field"

text \<open>
  A JSON object is falsy when it has no key. A payload is taken to hold no other keys than
  the ones the code reads.
\<close>

definition empty_repo :: raw_repo where
  "empty_repo =
     \<lparr>rd_id = Missing, rd_name = Missing, rd_description = Missing, rd_html_url = Missing,
      rd_clone_url = Missing, rd_ssh_url = Missing, rd_private = Missing, rd_fork = Missing,
      rd_archived = Missing, rd_disabled = Missing, rd_language = Missing,
      rd_stargazers_count = Missing, rd_forks_count = Missing, rd_watchers_count = Missing,
      rd_open_issues_count = Missing, rd_size = Missing, rd_license = Missing,
      rd_created_at = Missing, rd_updated_at = Missing, rd_pushed_at = Missing\<rparr>"

section \<open>Stored rows\<close>

text \<open>
  The columns that the pipeline assigns; the other columns keep their defaults. A primary
  key (a fresh UUID in the source) is a fresh number. A column that may hold \<^verbatim>\<open>NULL\<close>,
  or that the code may assign \<^verbatim>\<open>None\<close> to, is an \<open>option\<close>. The field \<open>labels\<close> of an
  issue is its rows of the association table \<^verbatim>\<open>issue_labels\<close>, by label key.
\<close>

datatype issue_status = OPEN | CLOSED | MERGED | DRAFT | IN_PROGRESS | UNDER_REVIEW

record issue =
  issue_id :: nat
  github_id :: string
  github_number :: "int option"
  title :: "string option"
  body :: "string option"
  html_url :: "string option"
  api_url :: "string option"
  repository_id :: nat
  repository_full_name :: string
  repository_owner :: string
  repository_name :: string
  status :: issue_status
  is_pull_request :: bool
  bounty_amount :: int
  has_bounty :: bool
  bounty_source :: "string option"
  author_username :: "string option"
  author_avatar_url :: "string option"
  assignee_username :: "string option"
  comments_count :: "int option"
  github_created_at :: int
  github_updated_at :: int
  github_closed_at :: "int option"
  last_fetched_at :: "int option"
  fetch_count :: int
  primary_language :: "string option"
  labels :: "nat list"

datatype repository_type = PUBLIC | PRIVATE | FORK

record repository =
  repo_id :: nat
  repo_github_id :: string
  repo_full_name :: string
  repo_name :: "string option"
  repo_owner :: string
  repo_description :: "string option"
  repo_html_url :: "string option"
  repo_clone_url :: "string option"
  repo_ssh_url :: "string option"
  repo_repository_type :: repository_type
  repo_is_fork :: "bool option"
  repo_is_archived :: "bool option"
  repo_is_disabled :: "bool option"
  repo_primary_language :: "string option"
  repo_stars_count :: "int option"
  repo_forks_count :: "int option"
  repo_watchers_count :: "int option"
  repo_open_issues_count :: "int option"
  repo_size_kb :: "int option"
  repo_github_created_at :: int
  repo_github_updated_at :: int
  repo_github_pushed_at :: "int option"
  repo_last_fetched_at :: "int option"
  repo_fetch_count :: int
  repo_license_name :: "string option"
  repo_license_spdx_id :: "string option"

record issue_label =
  label_id :: nat
  label_name :: string
  label_color :: string
  label_description :: "string option"

record issue_comment =
  comment_id :: nat
  comment_github_id :: string
  comment_issue_id :: nat
  comment_body :: "string option"
  comment_html_url :: "string option"
  comment_author_username :: "string option"
  comment_author_avatar_url :: "string option"
  comment_author_association :: "string option"
  comment_github_created_at :: int
  comment_github_updated_at :: int

section \<open>The service and its surroundings\<close>

text \<open>
  What the upstream does with one request: it answers with a status, the two rate-limit
  headers and a body (\<open>None\<close> when the body is not JSON or is \<^verbatim>\<open>null\<close>), or the request
  times out, or it fails in another way.
\<close>

record 'b response =
  status_code :: int
  x_ratelimit_remaining :: "string option"
  x_ratelimit_reset :: "string option"
  json :: "'b option"

datatype 'b outcome = Responded "'b response" | TimedOut | Failed

datatype request =
    SearchIssues string int int
  | GetRepo string
  | GetComments string "int option"

text \<open>
  The state that the pipeline reads and writes: the two rate-limit attributes of the
  service, the clock, the committed rows of the four tables, the next fresh key, what the
  upstream will answer to the coming requests of each kind (in turn; a request beyond the
  list fails), and the requests sent so far, latest last.
\<close>

record world =
  rate_limit_remaining :: int
  rate_limit_reset :: "int option"
  now :: int
  issues :: "issue list"
  repositories :: "repository list"
  label_rows :: "issue_label list"
  comment_rows :: "issue_comment list"
  next_id :: nat
  search_replies :: "search_page outcome list"
  repo_replies :: "raw_repo outcome list"
  comment_replies :: "raw_comment list outcome list"
  sent :: "request list"

definition next_reply :: "'b outcome list \<Rightarrow> 'b outcome \<times> 'b outcome list" where
  "next_reply q = (case q of [] \<Rightarrow> (Failed, []) | r # rest \<Rightarrow> (r, rest))"

section \<open>FetchClient and RateLimiter: \<^verbatim>\<open>make_request\<close>\<close>

text \<open>
  \<^verbatim>\<open>int(s)\<close> of a string: white space around it (the characters 9 to 13, the blank, 133
  and 160; not 28 to 31), an optional sign, then digits, where single underscores may stand
  between digits.
\<close>

definition is_int_space :: "char \<Rightarrow> bool" where
  "is_int_space c =
     (let n = (of_char c :: int) in (9 \<le> n \<and> n \<le> 13) \<or> n = 32 \<or> n = 133 \<or> n = 160)"

definition strip :: "string \<Rightarrow> string" where
  "strip s = rev (dropWhile is_int_space (rev (dropWhile is_int_space s)))"

text \<open>
  \<^verbatim>\<open>datetime.fromtimestamp(t)\<close> of an integer, with the process clock in UTC: it accepts
  the instants from 0001-01-02 00:00:00 to 9999-12-31 23:59:59 and raises on any other.
\<close>

definition fromtimestamp :: "int \<Rightarrow> py_error + int" where
  "fromtimestamp t =
     (if - 62135510400 \<le> t \<and> t \<le> 253402300799 then Inr t else Inl ValueError)"

fun grouped_digits :: "string \<Rightarrow> bool" where
  "grouped_digits [] = False"
| "grouped_digits [c] = is_digit c"
| "grouped_digits (c # d # cs) =
     (is_digit c \<and> (if d = CHR ''_'' then grouped_digits cs else grouped_digits (d # cs)))"

definition py_int :: "string \<Rightarrow> py_error + int" where
  "py_int s =
     (let t = strip s;
          negative = (t \<noteq> [] \<and> hd t = CHR ''-'');
          ds = (if t \<noteq> [] \<and> (hd t = CHR ''-'' \<or> hd t = CHR ''+'') then tl t else t)
      in if grouped_digits ds
         then Inr ((if negative then - 1 else 1) * digits_value (remove_char CHR ''_'' ds))
         else Inl ValueError)"

text \<open>
  \<^verbatim>\<open>make_request\<close>, given what the upstream does with the request. The remaining count is
  assigned first, from the header or from the default 0; then the reset time, when its
  header is not empty; then the status is looked at. Every exception inside is caught and
  gives \<^verbatim>\<open>None\<close>: a header that is not an integer, a reset time that
  \<^verbatim>\<open>datetime.fromtimestamp\<close> rejects, a status that \<^verbatim>\<open>raise_for_status\<close> rejects, a
  body that is not JSON.
\<close>

definition make_request :: "request \<Rightarrow> 'b outcome \<Rightarrow> world \<Rightarrow> 'b option \<times> world" where
  "make_request rq oc w0 =
     (let w = w0\<lparr>sent := sent w0 @ [rq]\<rparr>
      in case oc of
           TimedOut \<Rightarrow> (None, w)
         | Failed \<Rightarrow> (None, w)
         | Responded response \<Rightarrow>
             (case (case x_ratelimit_remaining response of None \<Rightarrow> Inr 0 | Some v \<Rightarrow> py_int v) of
                Inl e \<Rightarrow> (None, w)
              | Inr remaining \<Rightarrow>
                  (let w1 = w\<lparr>rate_limit_remaining := remaining\<rparr>
                   in case (case x_ratelimit_reset response of
                              None \<Rightarrow> Inr (rate_limit_reset w1)
                            | Some v \<Rightarrow>
                                if v = [] then Inr (rate_limit_reset w1)
                                else
                                  (case py_int v of
                                     Inl e \<Rightarrow> Inl e
                                   | Inr t \<Rightarrow>
                                       (case fromtimestamp t of
                                          Inl e \<Rightarrow> Inl e
                                        | Inr reset_at \<Rightarrow> Inr (Some reset_at)))) of
                        Inl e \<Rightarrow> (None, w1)
                      | Inr reset \<Rightarrow>
                          (let w2 = w1\<lparr>rate_limit_reset := reset\<rparr>
                           in if status_code response = 403 \<and> rate_limit_remaining w2 = 0
                              then (None, w2)
                              else if status_code response = 404 then (None, w2)
                              else if status_code response < 200 \<or> 300 \<le> status_code response
                              then (None, w2)
                              else (json response, w2)))))"

section \<open>RepositoryUpserter\<close>

text \<open>\<^verbatim>\<open>Repository.update_from_github\<close>, at the time \<open>t\<close> that \<^verbatim>\<open>utcnow\<close> reads.\<close>

definition repo_update_from_github :: "int \<Rightarrow> raw_repo \<Rightarrow> repository \<Rightarrow> py_error + repository" where
  "repo_update_from_github t d r =
     (let r1 = r\<lparr>repo_name := get_or (rd_name d) (repo_name r),
                  repo_description := get_or (rd_description d) (repo_description r),
                  repo_primary_language := get_or (rd_language d) None,
                  repo_stars_count := get_or (rd_stargazers_count d) (Some 0),
                  repo_forks_count := get_or (rd_forks_count d) (Some 0),
                  repo_watchers_count := get_or (rd_watchers_count d) (Some 0),
                  repo_open_issues_count := get_or (rd_open_issues_count d) (Some 0),
                  repo_size_kb := get_or (rd_size d) (Some 0),
                  repo_is_fork := get_or (rd_fork d) (Some False),
                  repo_is_archived := get_or (rd_archived d) (Some False),
                  repo_is_disabled := get_or (rd_disabled d) (Some False)\<rparr>
      in case parse_if_present (rd_updated_at d) of
           Inl e \<Rightarrow> Inl e
         | Inr updated \<Rightarrow>
             (case parse_if_present (rd_pushed_at d) of
                Inl e \<Rightarrow> Inl e
              | Inr pushed \<Rightarrow>
                  (let r2 = r1\<lparr>repo_github_updated_at :=
                                  (case updated of None \<Rightarrow> repo_github_updated_at r1 | Some u \<Rightarrow> u),
                                repo_github_pushed_at :=
                                  (case pushed of None \<Rightarrow> repo_github_pushed_at r1 | Some p \<Rightarrow> Some p)\<rparr>;
                       r3 = (case rd_license d of
                               Val license_info \<Rightarrow>
                                 r2\<lparr>repo_license_name := get_or (lic_name license_info) None,
                                    repo_license_spdx_id := get_or (lic_spdx_id license_info) None\<rparr>
                             | Missing \<Rightarrow> r2
                             | Null \<Rightarrow> r2)
                   in Inr (r3\<lparr>repo_last_fetched_at := Some t,
                              repo_fetch_count := repo_fetch_count r3 + 1\<rparr>))))"

text \<open>
  \<^verbatim>\<open>Repository.update_bounty_stats\<close>. Its first statement counts issues. Its second
  statement evaluates \<^verbatim>\<open>db_session.func\<close>, and a \<^verbatim>\<open>sqlalchemy.orm.Session\<close> (which is what
  \<^verbatim>\<open>sessionmaker\<close> of \<^verbatim>\<open>app/db/database.py\<close> makes, and what the service passes on) has
  no attribute \<^verbatim>\<open>func\<close>: the method raises \<^verbatim>\<open>AttributeError\<close> before any of its four
  assignments, whatever the rows are.
\<close>

definition update_bounty_stats :: "world \<Rightarrow> repository \<Rightarrow> py_error + repository" where
  "update_bounty_stats w r = Inl AttributeError"

text \<open>
  The columns declared \<^verbatim>\<open>nullable=False\<close> hold a value, and the columns declared
  \<^verbatim>\<open>unique=True\<close> do not repeat: a commit that would break one of these fails.
\<close>

definition repository_row_ok :: "repository \<Rightarrow> bool" where
  "repository_row_ok r =
     (repo_name r \<noteq> None \<and> repo_html_url r \<noteq> None \<and> repo_clone_url r \<noteq> None \<and>
      repo_ssh_url r \<noteq> None)"

definition repository_insert_ok :: "repository list \<Rightarrow> repository \<Rightarrow> bool" where
  "repository_insert_ok stored r =
     (repository_row_ok r \<and> repo_github_id r \<notin> set (map repo_github_id stored) \<and>
      repo_full_name r \<notin> set (map repo_full_name stored))"

definition replace_repository :: "repository \<Rightarrow> repository list \<Rightarrow> repository list" where
  "replace_repository r rs = map (\<lambda>x. if repo_id x = repo_id r then r else x) rs"

text \<open>
  \<^verbatim>\<open>update_repository_data\<close>. An exception of \<^verbatim>\<open>update_from_github\<close> or of
  \<^verbatim>\<open>update_bounty_stats\<close> is not caught here; only the commit is guarded.
\<close>

definition update_repository_data :: "world \<Rightarrow> repository \<Rightarrow> (py_error + repository) \<times> world" where
  "update_repository_data w repository =
     (let (reply, rest) = next_reply (repo_replies w);
          (repo_data, w1) =
             make_request (GetRepo (repo_full_name repository)) reply (w\<lparr>repo_replies := rest\<rparr>)
      in case repo_data of
           None \<Rightarrow> (Inr repository, w1)
         | Some d \<Rightarrow>
             if d = empty_repo then (Inr repository, w1)
             else
               (case repo_update_from_github (now w1) d repository of
                  Inl e \<Rightarrow> (Inl e, w1)
                | Inr r1 \<Rightarrow>
                    (case update_bounty_stats w1 r1 of
                       Inl e \<Rightarrow> (Inl e, w1)
                     | Inr r2 \<Rightarrow>
                         if repository_row_ok r2
                         then (Inr r2, w1\<lparr>repositories := replace_repository r2 (repositories w1)\<rparr>)
                         else (Inr repository, w1))))"

text \<open>
  The construction of a new \<^verbatim>\<open>Repository\<close> from the fetched payload, as the row that
  the \<^verbatim>\<open>INSERT\<close> stores; every exception of it is caught by the caller.
\<close>

definition new_repository ::
    "nat \<Rightarrow> int \<Rightarrow> string \<Rightarrow> string \<Rightarrow> raw_repo \<Rightarrow> py_error + repository" where
  "new_repository key t owner name d =
     (case parse_required (rd_created_at d) of
        Inl e \<Rightarrow> Inl e
      | Inr created \<Rightarrow>
     (case parse_required (rd_updated_at d) of
        Inl e \<Rightarrow> Inl e
      | Inr updated \<Rightarrow>
     (case parse_if_present (rd_pushed_at d) of
        Inl e \<Rightarrow> Inl e
      | Inr pushed \<Rightarrow>
     (case str_id (rd_id d) of
        Inl e \<Rightarrow> Inl e
      | Inr gid \<Rightarrow>
     (case subscript (rd_html_url d) of
        Inl e \<Rightarrow> Inl e
      | Inr html \<Rightarrow>
     (case subscript (rd_clone_url d) of
        Inl e \<Rightarrow> Inl e
      | Inr clone \<Rightarrow>
     (case subscript (rd_ssh_url d) of
        Inl e \<Rightarrow> Inl e
      | Inr ssh \<Rightarrow>
          Inr \<lparr>repo_id = key,
               repo_github_id = gid,
               repo_full_name = owner @ ''/'' @ name,
               repo_name = Some name,
               repo_owner = owner,
               repo_description = get_or (rd_description d) None,
               repo_html_url = html,
               repo_clone_url = clone,
               repo_ssh_url = ssh,
               repo_repository_type = (if rd_private d = Val True then PRIVATE else PUBLIC),
               repo_is_fork = or_default (get_or (rd_fork d) (Some False)) False,
               repo_is_archived = or_default (get_or (rd_archived d) (Some False)) False,
               repo_is_disabled = or_default (get_or (rd_disabled d) (Some False)) False,
               repo_primary_language = get_or (rd_language d) None,
               repo_stars_count = or_default (get_or (rd_stargazers_count d) (Some 0)) 0,
               repo_forks_count = or_default (get_or (rd_forks_count d) (Some 0)) 0,
               repo_watchers_count = or_default (get_or (rd_watchers_count d) (Some 0)) 0,
               repo_open_issues_count = or_default (get_or (rd_open_issues_count d) (Some 0)) 0,
               repo_size_kb = or_default (get_or (rd_size d) (Some 0)) 0,
               repo_github_created_at = created,
               repo_github_updated_at = updated,
               repo_github_pushed_at = pushed,
               repo_last_fetched_at = Some t,
               repo_fetch_count = 1,
               repo_license_name =
                 (case rd_license d of Val l \<Rightarrow> get_or (lic_name l) None
                  | Missing \<Rightarrow> None | Null \<Rightarrow> None),
               repo_license_spdx_id =
                 (case rd_license d of Val l \<Rightarrow> get_or (lic_spdx_id l) None
                  | Missing \<Rightarrow> None | Null \<Rightarrow> None)\<rparr>)))))))"

text \<open>
  \<^verbatim>\<open>get_or_create_repository\<close>. The age of a stored row is \<^verbatim>\<open>(utcnow() -
  last_fetched_at).days\<close>, the whole days between the two instants.
\<close>

definition get_or_create_repository ::
    "world \<Rightarrow> string \<Rightarrow> string \<Rightarrow> (py_error + repository option) \<times> world" where
  "get_or_create_repository w owner name =
     (let full_name = owner @ ''/'' @ name
      in case find (\<lambda>r. repo_full_name r = full_name) (repositories w) of
           Some existing_repo \<Rightarrow>
             (if (case repo_last_fetched_at existing_repo of
                    None \<Rightarrow> False
                  | Some fetched \<Rightarrow> 1 \<le> (now w - fetched) div 86400)
              then (case update_repository_data w existing_repo of
                      (Inl e, w1) \<Rightarrow> (Inl e, w1)
                    | (Inr r, w1) \<Rightarrow> (Inr (Some r), w1))
              else (Inr (Some existing_repo), w))
         | None \<Rightarrow>
             (let (reply, rest) = next_reply (repo_replies w);
                  (repo_data, w1) = make_request (GetRepo full_name) reply (w\<lparr>repo_replies := rest\<rparr>)
              in case repo_data of
                   None \<Rightarrow> (Inr None, w1)
                 | Some d \<Rightarrow>
                     if d = empty_repo then (Inr None, w1)
                     else
                       (case new_repository (next_id w1) (now w1) owner name d of
                          Inl e \<Rightarrow> (Inr None, w1)
                        | Inr repository \<Rightarrow>
                            if repository_insert_ok (repositories w1) repository
                            then (Inr (Some repository),
                                  w1\<lparr>repositories := repositories w1 @ [repository],
                                     next_id := Suc (next_id w1)\<rparr>)
                            else (Inr None, w1))))"

section \<open>IssueUpserter\<close>

text \<open>\<^verbatim>\<open>Issue.update_from_github\<close>, at the time \<open>t\<close> that \<^verbatim>\<open>utcnow\<close> reads.\<close>

definition update_from_github :: "int \<Rightarrow> raw_issue \<Rightarrow> issue \<Rightarrow> py_error + issue" where
  "update_from_github t d i =
     (let i1 = i\<lparr>title := get_or (item_title d) (title i),
                  body := get_or (item_body d) (body i),
                  status := (if item_state d = Val ''closed'' then CLOSED else OPEN),
                  comments_count := get_or (item_comments d) (Some 0)\<rparr>
      in case parse_if_present (item_updated_at d) of
           Inl e \<Rightarrow> Inl e
         | Inr updated \<Rightarrow>
             (case parse_if_present (item_closed_at d) of
                Inl e \<Rightarrow> Inl e
              | Inr closed \<Rightarrow>
                  Inr (i1\<lparr>github_updated_at :=
                             (case updated of None \<Rightarrow> github_updated_at i1 | Some u \<Rightarrow> u),
                           github_closed_at :=
                             (case closed of None \<Rightarrow> github_closed_at i1 | Some c \<Rightarrow> Some c),
                           last_fetched_at := Some t,
                           fetch_count := fetch_count i1 + 1\<rparr>)))"

text \<open>
  \<^verbatim>\<open>process_issue_labels\<close>. The session does not flush before a query
  (\<^verbatim>\<open>autoflush=False\<close>), so the lookup by name sees the committed labels only, not the
  labels added earlier in the same call. \<open>pending\<close> are the labels added so far;
  \<^verbatim>\<open>label not in issue.labels\<close> compares objects, here by key.
\<close>

fun process_issue_labels ::
    "issue_label list \<Rightarrow> raw_label list \<Rightarrow> issue \<times> issue_label list \<times> nat \<Rightarrow>
     py_error + issue \<times> issue_label list \<times> nat" where
  "process_issue_labels committed [] acc = Inr acc"
| "process_issue_labels committed (label_data # rest) (i, pending, key) =
     (case get_or (ld_name label_data) (Some '''') of
        None \<Rightarrow> Inl AttributeError
      | Some n \<Rightarrow>
          (let name = lower n;
               color = fmt (get_or (ld_color label_data) (Some ''cccccc''))
           in case find (\<lambda>l. label_name l = name) committed of
                None \<Rightarrow>
                  process_issue_labels committed rest
                    (i\<lparr>labels := labels i @ [key]\<rparr>,
                     pending @ [\<lparr>label_id = key, label_name = name,
                                  label_color = CHR ''#'' # color,
                                  label_description = get_or (ld_description label_data) None\<rparr>],
                     Suc key)
              | Some existing_label \<Rightarrow>
                  process_issue_labels committed rest
                    (if label_id existing_label \<in> set (labels i) then i
                     else i\<lparr>labels := labels i @ [label_id existing_label]\<rparr>,
                     pending, key)))"

text \<open>
  The text \<^verbatim>\<open>f"{title} {body}"\<close> that both extractor functions are applied to, with
  \<^verbatim>\<open>title = github_data.get("title", "")\<close> and
  \<^verbatim>\<open>body = github_data.get("body", "") or ""\<close>.
\<close>

definition issue_title :: "raw_issue \<Rightarrow> string option" where
  "issue_title d = get_or (item_title d) (Some '''')"

definition issue_body :: "raw_issue \<Rightarrow> string" where
  "issue_body d = (case item_body d of Val b \<Rightarrow> b | Missing \<Rightarrow> '''' | Null \<Rightarrow> '''')"

definition issue_text :: "raw_issue \<Rightarrow> string" where
  "issue_text d = fmt (issue_title d) @ '' '' @ issue_body d"

definition user_login :: "raw_user field \<Rightarrow> py_error + string option" where
  "user_login u =
     (case u of Missing \<Rightarrow> Inl KeyError | Null \<Rightarrow> Inl TypeError | Val user \<Rightarrow> subscript (login user))"

definition user_avatar_url :: "raw_user field \<Rightarrow> py_error + string option" where
  "user_avatar_url u =
     (case u of
        Missing \<Rightarrow> Inl KeyError
      | Null \<Rightarrow> Inl TypeError
      | Val user \<Rightarrow> subscript (avatar_url user))"

text \<open>
  The \<^verbatim>\<open>else\<close> branch of \<^verbatim>\<open>process_issue_from_search\<close>: the two timestamps, then the
  arguments of \<^verbatim>\<open>Issue(...)\<close> in their order, as the row that the \<^verbatim>\<open>INSERT\<close>
  stores. \<^verbatim>\<open>github_closed_at\<close> is not among them, and \<^verbatim>\<open>fetch_count\<close> takes its
  default.
\<close>

definition new_issue ::
    "nat \<Rightarrow> int \<Rightarrow> string \<Rightarrow> raw_issue \<Rightarrow> repository \<Rightarrow> string \<Rightarrow> string \<Rightarrow> int \<Rightarrow>
     py_error + issue" where
  "new_issue key t gid d repository repo_owner_v repo_name_v amount =
     (case parse_required (item_created_at d) of
        Inl e \<Rightarrow> Inl e
      | Inr created \<Rightarrow>
     (case parse_required (item_updated_at d) of
        Inl e \<Rightarrow> Inl e
      | Inr updated \<Rightarrow>
     (case subscript (item_number d) of
        Inl e \<Rightarrow> Inl e
      | Inr number \<Rightarrow>
     (case subscript (item_html_url d) of
        Inl e \<Rightarrow> Inl e
      | Inr html \<Rightarrow>
     (case subscript (item_url d) of
        Inl e \<Rightarrow> Inl e
      | Inr api \<Rightarrow>
     (case user_login (item_user d) of
        Inl e \<Rightarrow> Inl e
      | Inr author \<Rightarrow>
     (case user_avatar_url (item_user d) of
        Inl e \<Rightarrow> Inl e
      | Inr avatar \<Rightarrow>
     (case (case item_assignee d of
              Val a \<Rightarrow> subscript (login a)
            | Missing \<Rightarrow> Inr None
            | Null \<Rightarrow> Inr None) of
        Inl e \<Rightarrow> Inl e
      | Inr assignee \<Rightarrow>
          Inr \<lparr>issue_id = key,
               github_id = gid,
               github_number = number,
               title = issue_title d,
               body = Some (issue_body d),
               html_url = html,
               api_url = api,
               repository_id = repo_id repository,
               repository_full_name = repo_owner_v @ ''/'' @ repo_name_v,
               repository_owner = repo_owner_v,
               repository_name = repo_name_v,
               status = (if item_state d = Val ''closed'' then CLOSED else OPEN),
               is_pull_request = (case item_pull_request d of Val _ \<Rightarrow> True
                                  | Missing \<Rightarrow> False | Null \<Rightarrow> False),
               bounty_amount = amount,
               has_bounty = (0 < amount),
               bounty_source = determine_bounty_source (issue_text d),
               author_username = author,
               author_avatar_url = avatar,
               assignee_username = assignee,
               comments_count = or_default (get_or (item_comments d) (Some 0)) 0,
               github_created_at = created,
               github_updated_at = updated,
               github_closed_at = None,
               last_fetched_at = Some t,
               fetch_count = 1,
               primary_language = repo_primary_language repository,
               labels = []\<rparr>))))))))"

definition issue_row_ok :: "issue \<Rightarrow> bool" where
  "issue_row_ok i =
     (github_number i \<noteq> None \<and> title i \<noteq> None \<and> html_url i \<noteq> None \<and> api_url i \<noteq> None \<and>
      author_username i \<noteq> None)"

definition labels_insert_ok :: "issue_label list \<Rightarrow> issue_label list \<Rightarrow> bool" where
  "labels_insert_ok stored pending =
     (distinct (map label_name pending) \<and>
      list_all (\<lambda>l. label_name l \<notin> set (map label_name stored)) pending)"

definition replace_issue :: "issue \<Rightarrow> issue list \<Rightarrow> issue list" where
  "replace_issue i xs = map (\<lambda>x. if issue_id x = issue_id i then i else x) xs"

text \<open>
  The two branches \<^verbatim>\<open>if existing_issue: ... else: ...\<close>: the stored issue is updated
  from the payload and given the extracted amount, its flag and its source; or a new issue
  is built.
\<close>

definition upsert_row ::
    "world \<Rightarrow> raw_issue \<Rightarrow> issue option \<Rightarrow> string \<Rightarrow> repository \<Rightarrow> string \<Rightarrow> string \<Rightarrow>
     int \<Rightarrow> py_error + issue" where
  "upsert_row w1 d existing_issue gid repository repo_owner_v repo_name_v amount =
     (case existing_issue of
        Some existing \<Rightarrow>
          (case update_from_github (now w1) d existing of
             Inl e \<Rightarrow> Inl e
           | Inr i \<Rightarrow>
               Inr (i\<lparr>bounty_amount := amount,
                      has_bounty := (0 < amount),
                      bounty_source := determine_bounty_source (issue_text d)\<rparr>))
      | None \<Rightarrow>
          new_issue (next_id w1) (now w1) gid d repository repo_owner_v repo_name_v amount)"

text \<open>
  The call of \<^verbatim>\<open>process_issue_labels\<close> on \<^verbatim>\<open>github_data.get("labels", [])\<close>; iterating
  over \<^verbatim>\<open>None\<close> raises \<^verbatim>\<open>TypeError\<close>.
\<close>

definition label_step ::
    "world \<Rightarrow> raw_issue \<Rightarrow> issue \<Rightarrow> py_error + issue \<times> issue_label list \<times> nat" where
  "label_step w1 d issue0 =
     (case item_labels d of
        Null \<Rightarrow> Inl TypeError
      | Missing \<Rightarrow> Inr (issue0, [], Suc (next_id w1))
      | Val labels_data \<Rightarrow>
          process_issue_labels (label_rows w1) labels_data (issue0, [], Suc (next_id w1)))"

text \<open>
  The end of \<^verbatim>\<open>process_issue_from_search\<close>, after the labels: the new or changed issue
  and the added labels are committed together, or not at all.
\<close>

definition commit_issue ::
    "world \<Rightarrow> issue option \<Rightarrow> (py_error + issue \<times> issue_label list \<times> nat) \<Rightarrow>
     (py_error + issue option) \<times> world" where
  "commit_issue w1 existing_issue labelled =
     (case labelled of
        Inl e \<Rightarrow> (Inl e, w1)
      | Inr (issue1, pending, key) \<Rightarrow>
          if issue_row_ok issue1 \<and>
             (existing_issue = None \<longrightarrow> github_id issue1 \<notin> set (map github_id (issues w1))) \<and>
             labels_insert_ok (label_rows w1) pending
          then (Inr (Some issue1),
                w1\<lparr>issues := (case existing_issue of
                                   Some _ \<Rightarrow> replace_issue issue1 (issues w1)
                                 | None \<Rightarrow> issues w1 @ [issue1]),
                   label_rows := label_rows w1 @ pending,
                   next_id := key\<rparr>)
          else (Inr None, w1))"

text \<open>
  \<^verbatim>\<open>process_issue_from_search\<close>. Only the commit at its end is inside a \<^verbatim>\<open>try\<close>: a
  failed commit is rolled back and gives \<^verbatim>\<open>None\<close>, and any exception before it leaves
  the function, with nothing committed.
\<close>

definition process_issue_from_search ::
    "world \<Rightarrow> raw_issue \<Rightarrow> int \<Rightarrow> (py_error + issue option) \<times> world" where
  "process_issue_from_search w github_data min_amount =
     (case str_id (item_id github_data) of
        Inl e \<Rightarrow> (Inl e, w)
      | Inr gid \<Rightarrow>
     (let existing_issue = find (\<lambda>i. github_id i = gid) (issues w)
      in case extract_bounty_amount (issue_text github_data) of
           Inl e \<Rightarrow> (Inl e, w)
         | Inr amount \<Rightarrow>
     if amount < min_amount then (Inr None, w)
     else
     (case get_or (item_repository_url github_data) (Some '''') of
        None \<Rightarrow> (Inl AttributeError, w)
      | Some url \<Rightarrow>
     (let repo_data = split_on CHR ''/'' url
      in if length repo_data < 2 then (Inr None, w)
         else
     (let repo_owner_v = repo_data ! (length repo_data - 2);
          repo_name_v = last repo_data
      in case get_or_create_repository w repo_owner_v repo_name_v of
           (Inl e, w1) \<Rightarrow> (Inl e, w1)
         | (Inr None, w1) \<Rightarrow> (Inr None, w1)
         | (Inr (Some repository), w1) \<Rightarrow>
     (case upsert_row w1 github_data existing_issue gid repository repo_owner_v repo_name_v
             amount of
        Inl e \<Rightarrow> (Inl e, w1)
      | Inr issue0 \<Rightarrow> commit_issue w1 existing_issue (label_step w1 github_data issue0)))))))"

section \<open>SearchCrawler\<close>

text \<open>
  The loop over the items of one page. \<^verbatim>\<open>new_issues\<close> holds references to the objects
  of the session, and the session has one object for each row: when an issue that is in the
  list already is upserted again, every place it has in the list shows its new state.
\<close>

fun process_items ::
    "raw_issue list \<Rightarrow> int \<Rightarrow> issue list \<Rightarrow> world \<Rightarrow> (py_error + issue list) \<times> world" where
  "process_items [] min_amount new_issues w = (Inr new_issues, w)"
| "process_items (item # rest) min_amount new_issues w =
     (case process_issue_from_search w item min_amount of
        (Inl e, w1) \<Rightarrow> (Inl e, w1)
      | (Inr None, w1) \<Rightarrow> process_items rest min_amount new_issues w1
      | (Inr (Some i), w1) \<Rightarrow>
          process_items rest min_amount (replace_issue i new_issues @ [i]) w1)"

text \<open>
  The loop over the pages, started with the pages still to visit and the issues gathered so
  far. \<^verbatim>\<open>asyncio.sleep(1)\<close> moves the clock one second on.
\<close>

fun search_pages ::
    "string \<Rightarrow> int \<Rightarrow> int \<Rightarrow> int list \<Rightarrow> issue list \<Rightarrow> world \<Rightarrow>
     (py_error + issue list) \<times> world" where
  "search_pages q per_page min_amount [] new_issues w = (Inr new_issues, w)"
| "search_pages q per_page min_amount (page # pages) new_issues w =
     (if rate_limit_remaining w < 10 then (Inr new_issues, w)
      else
        (case make_request (SearchIssues q per_page page) (fst (next_reply (search_replies w)))
                (w\<lparr>search_replies := snd (next_reply (search_replies w))\<rparr>) of
           (None, w1) \<Rightarrow> (Inr new_issues, w1)
         | (Some d, w1) \<Rightarrow>
             (case items d of
                Missing \<Rightarrow> (Inr new_issues, w1)
              | Null \<Rightarrow> (Inr new_issues, w1)
              | Val page_items \<Rightarrow>
                  if page_items = [] then (Inr new_issues, w1)
                  else
                    (case process_items page_items min_amount new_issues w1 of
                       (Inl e, w2) \<Rightarrow> (Inl e, w2)
                     | (Inr found, w2) \<Rightarrow>
                         search_pages q per_page min_amount pages found
                           (w2\<lparr>now := now w2 + 1\<rparr>)))))"

definition search_query :: "string \<Rightarrow> string option \<Rightarrow> string" where
  "search_query query language =
     query @ '' in:title,body'' @
     (case language of
        None \<Rightarrow> ''''
      | Some l \<Rightarrow> if l = [] then '''' else '' language:'' @ l) @
     '' ($ OR USD OR dollars)''"

definition search_bounty_issues ::
    "world \<Rightarrow> string \<Rightarrow> string option \<Rightarrow> int \<Rightarrow> int \<Rightarrow> int \<Rightarrow> (py_error + issue list) \<times> world" where
  "search_bounty_issues w query language min_amount per_page max_pages =
     search_pages (search_query query language) per_page min_amount [1..max_pages] [] w"

section \<open>CommentSync\<close>

text \<open>
  The loop of \<^verbatim>\<open>fetch_issue_comments\<close>: the comments it adds, in order. The lookup by
  external id sees the committed comments only (\<^verbatim>\<open>autoflush=False\<close>). No exception of the
  loop is caught.
\<close>

fun new_comments ::
    "issue_comment list \<Rightarrow> nat \<Rightarrow> nat \<Rightarrow> raw_comment list \<Rightarrow> py_error + issue_comment list" where
  "new_comments stored iid key [] = Inr []"
| "new_comments stored iid key (comment_data # rest) =
     (case str_id (cd_id comment_data) of
        Inl e \<Rightarrow> Inl e
      | Inr gid \<Rightarrow>
          (case find (\<lambda>c. comment_github_id c = gid) stored of
             Some existing_comment \<Rightarrow> new_comments stored iid key rest
           | None \<Rightarrow>
     (case parse_required (cd_created_at comment_data) of
        Inl e \<Rightarrow> Inl e
      | Inr created \<Rightarrow>
     (case parse_required (cd_updated_at comment_data) of
        Inl e \<Rightarrow> Inl e
      | Inr updated \<Rightarrow>
     (case subscript (cd_html_url comment_data) of
        Inl e \<Rightarrow> Inl e
      | Inr html \<Rightarrow>
     (case user_login (cd_user comment_data) of
        Inl e \<Rightarrow> Inl e
      | Inr author \<Rightarrow>
     (case user_avatar_url (cd_user comment_data) of
        Inl e \<Rightarrow> Inl e
      | Inr avatar \<Rightarrow>
     (case new_comments stored iid (Suc key) rest of
        Inl e \<Rightarrow> Inl e
      | Inr comments \<Rightarrow>
          Inr (\<lparr>comment_id = key,
                comment_github_id = gid,
                comment_issue_id = iid,
                comment_body = get_or (cd_body comment_data) (Some ''''),
                comment_html_url = html,
                comment_author_username = author,
                comment_author_avatar_url = avatar,
                comment_author_association = get_or (cd_author_association comment_data) None,
                comment_github_created_at = created,
                comment_github_updated_at = updated\<rparr> # comments)))))))))"

definition comment_row_ok :: "issue_comment \<Rightarrow> bool" where
  "comment_row_ok c =
     (comment_body c \<noteq> None \<and> comment_html_url c \<noteq> None \<and> comment_author_username c \<noteq> None)"

definition comments_insert_ok :: "issue_comment list \<Rightarrow> issue_comment list \<Rightarrow> bool" where
  "comments_insert_ok stored added =
     (list_all comment_row_ok added \<and> distinct (map comment_github_id added) \<and>
      list_all (\<lambda>c. comment_github_id c \<notin> set (map comment_github_id stored)) added)"

text \<open>
  \<^verbatim>\<open>fetch_issue_comments\<close>. A failed commit is rolled back and logged; the list of the
  comments built in the loop is returned in either case.
\<close>

definition fetch_issue_comments ::
    "world \<Rightarrow> issue \<Rightarrow> (py_error + issue_comment list) \<times> world" where
  "fetch_issue_comments w i =
     (case make_request (GetComments (repository_full_name i) (github_number i))
             (fst (next_reply (comment_replies w)))
             (w\<lparr>comment_replies := snd (next_reply (comment_replies w))\<rparr>) of
        (None, w1) \<Rightarrow> (Inr [], w1)
      | (Some comments_data, w1) \<Rightarrow>
          if comments_data = [] then (Inr [], w1)
          else
            (case new_comments (comment_rows w1) (issue_id i) (next_id w1) comments_data of
               Inl e \<Rightarrow> (Inl e, w1)
             | Inr comments \<Rightarrow>
                 if comments_insert_ok (comment_rows w1) comments
                 then (Inr comments,
                       w1\<lparr>comment_rows := comment_rows w1 @ comments,
                          next_id := next_id w1 + length comments\<rparr>)
                 else (Inr comments, w1)))"

section \<open>Concrete data\<close>

text \<open>
  A payload with no key, a stored repository \<^verbatim>\<open>acme/tool\<close> fetched at the instant 0, a
  closed issue of it carrying a bounty of 150 dollars and one label, and a state with that
  repository only, which answers no request.
\<close>

definition no_keys :: raw_issue where
  "no_keys =
     \<lparr>item_id = Missing, item_number = Missing, item_title = Missing, item_body = Missing,
      item_html_url = Missing, item_url = Missing, item_repository_url = Missing,
      item_state = Missing, item_pull_request = Missing, item_user = Missing,
      item_assignee = Missing, item_comments = Missing, item_labels = Missing,
      item_created_at = Missing, item_updated_at = Missing, item_closed_at = Missing\<rparr>"

definition acme_tool :: repository where
  "acme_tool =
     \<lparr>repo_id = 0, repo_github_id = ''555'', repo_full_name = ''acme/tool'',
      repo_name = Some ''tool'', repo_owner = ''acme'', repo_description = None,
      repo_html_url = Some ''https://github.com/acme/tool'',
      repo_clone_url = Some ''https://github.com/acme/tool.git'',
      repo_ssh_url = Some ''git@github.com:acme/tool.git'',
      repo_repository_type = PUBLIC, repo_is_fork = Some False, repo_is_archived = Some False,
      repo_is_disabled = Some False, repo_primary_language = Some ''Python'',
      repo_stars_count = Some 10, repo_forks_count = Some 1, repo_watchers_count = Some 10,
      repo_open_issues_count = Some 3, repo_size_kb = Some 100,
      repo_github_created_at = - 1000, repo_github_updated_at = - 500,
      repo_github_pushed_at = None, repo_last_fetched_at = Some 0, repo_fetch_count = 1,
      repo_license_name = None, repo_license_spdx_id = None\<rparr>"

definition bounty_item :: raw_issue where
  "bounty_item =
     no_keys
       \<lparr>item_id := Val 101, item_number := Val 7,
        item_title := Val ''Fix parser - $150 bounty'',
        item_body := Val ''Details inside'',
        item_html_url := Val ''https://github.com/acme/tool/issues/7'',
        item_url := Val ''https://api.github.com/repos/acme/tool/issues/7'',
        item_repository_url := Val ''https://api.github.com/repos/acme/tool'',
        item_state := Val ''closed'',
        item_user := Val \<lparr>login = Val ''alice'', avatar_url = Null\<rparr>,
        item_comments := Val 2,
        item_labels := Val [\<lparr>ld_name = Val ''Bug'', ld_color = Val ''ff0000'',
                              ld_description = Null\<rparr>],
        item_created_at := Val (Iso (- 300)),
        item_updated_at := Val (Iso (- 200)),
        item_closed_at := Val (Iso (- 100))\<rparr>"

definition quiet :: world where
  "quiet =
     \<lparr>rate_limit_remaining = 5000, rate_limit_reset = None, now = 3600,
      issues = [], repositories = [acme_tool], label_rows = [], comment_rows = [],
      next_id = 1, search_replies = [], repo_replies = [], comment_replies = [], sent = []\<rparr>"

definition ok_response :: "'b \<Rightarrow> 'b outcome" where
  "ok_response b =
     Responded \<lparr>status_code = 200, x_ratelimit_remaining = Some ''4999'',
                 x_ratelimit_reset = Some ''1700000000'', json = Some b\<rparr>"

section \<open>Properties of stored rows and of the upstream\<close>

text \<open>The bounty flag of an issue agrees with its amount.\<close>

definition flag_agrees :: "issue \<Rightarrow> bool" where
  "flag_agrees i = (has_bounty i = (0 < bounty_amount i))"

definition comment_ids :: "issue_comment list \<Rightarrow> string list" where
  "comment_ids cs = map comment_github_id cs"

text \<open>The external id of a raw comment exists among the stored comments.\<close>

definition known_comment :: "issue_comment list \<Rightarrow> raw_comment \<Rightarrow> bool" where
  "known_comment stored cd =
     (case str_id (cd_id cd) of
        Inl e \<Rightarrow> False
      | Inr gid \<Rightarrow> gid \<in> set (comment_ids stored))"

text \<open>
  The comments that the coming request for comments obtains from the upstream (none when
  the request gives no result).
\<close>

definition upstream_comments :: "world \<Rightarrow> raw_comment list" where
  "upstream_comments w =
     (case fst (make_request (GetComments [] None) (fst (next_reply (comment_replies w))) w) of
        None \<Rightarrow> []
      | Some comments_data \<Rightarrow> comments_data)"

section \<open>Concrete states\<close>

text \<open>The state after the bounty issue has been upserted once, and once more.\<close>

definition tracked :: world where
  "tracked = snd (process_issue_from_search quiet bounty_item 5000)"

definition retracked :: world where
  "retracked = snd (process_issue_from_search tracked bounty_item 5000)"

text \<open>The same issue after its bounty offer has gone from the text.\<close>

definition withdrawn_item :: raw_issue where
  "withdrawn_item =
     bounty_item\<lparr>item_title := Val ''Fix parser'', item_body := Val ''The offer was withdrawn''\<rparr>"

text \<open>A response without the rate-limit headers, and one that reports 42 requests left.\<close>

definition bare_response :: "search_page response" where
  "bare_response =
     \<lparr>status_code = 502, x_ratelimit_remaining = None, x_ratelimit_reset = None, json = None\<rparr>"

definition counted_response :: "search_page response" where
  "counted_response =
     \<lparr>status_code = 200, x_ratelimit_remaining = Some ''42'', x_ratelimit_reset = None,
      json = Some \<lparr>items = Val []\<rparr>\<rparr>"

text \<open>
  The state in which the stored repository was fetched 25 hours ago and the upstream
  answers the refresh with a well-formed payload.
\<close>

definition tool_payload :: raw_repo where
  "tool_payload =
     empty_repo
       \<lparr>rd_id := Val 555, rd_name := Val ''tool'', rd_description := Val ''A tool'',
        rd_html_url := Val ''https://github.com/acme/tool'',
        rd_clone_url := Val ''https://github.com/acme/tool.git'',
        rd_ssh_url := Val ''git@github.com:acme/tool.git'',
        rd_private := Val False, rd_fork := Val False, rd_archived := Val False,
        rd_disabled := Val False, rd_language := Val ''Python'',
        rd_stargazers_count := Val 11, rd_forks_count := Val 1, rd_watchers_count := Val 11,
        rd_open_issues_count := Val 4, rd_size := Val 120,
        rd_created_at := Val (Iso (- 1000)), rd_updated_at := Val (Iso 80000),
        rd_pushed_at := Val (Iso 80000)\<rparr>"

definition stale :: world where
  "stale = quiet\<lparr>now := 25 * 3600, repo_replies := [ok_response tool_payload]\<rparr>"

text \<open>
  The tracked issue with one comment upstream, served to two requests in a row; and the
  state after the first sync.
\<close>

definition review_comment :: raw_comment where
  "review_comment =
     \<lparr>cd_id = Val 9001, cd_body = Val ''I can take this'',
      cd_html_url = Val ''https://github.com/acme/tool/issues/7#issuecomment-9001'',
      cd_user = Val \<lparr>login = Val ''bob'', avatar_url = Null\<rparr>,
      cd_author_association = Val ''NONE'',
      cd_created_at = Val (Iso (- 50)), cd_updated_at = Val (Iso (- 50))\<rparr>"

definition commented :: world where
  "commented =
     tracked\<lparr>comment_replies := [ok_response [review_comment], ok_response [review_comment]]\<rparr>"

definition synced :: world where
  "synced = snd (fetch_issue_comments commented (hd (issues commented)))"

text \<open>
  The same comment with \<^verbatim>\<open>"body": null\<close>, which the column \<^verbatim>\<open>body\<close> of the comments
  (\<^verbatim>\<open>nullable=False\<close>) refuses; the tracked issue with that comment upstream, served to
  two requests in a row; and the tracked issue with the first comment twice in one answer.
\<close>

definition silent_comment :: raw_comment where
  "silent_comment = review_comment\<lparr>cd_body := Null\<rparr>"

definition unsaved :: world where
  "unsaved =
     tracked\<lparr>comment_replies := [ok_response [silent_comment], ok_response [silent_comment]]\<rparr>"

definition doubled :: world where
  "doubled = tracked\<lparr>comment_replies := [ok_response [review_comment, review_comment]]\<rparr>"

text \<open>
  A response whose remaining count is not an integer. A first search page that comes with
  status 200 and without the rate-limit headers and holds the bounty issue; and a state
  that stores no repository yet, answers the first search with that page and answers the
  first repository request with the well-formed payload and the usual headers.
\<close>

definition garbled_response :: "search_page response" where
  "garbled_response =
     \<lparr>status_code = 200, x_ratelimit_remaining = Some ''abc'', x_ratelimit_reset = None,
      json = Some \<lparr>items = Val []\<rparr>\<rparr>"

definition headerless_page :: "search_page response" where
  "headerless_page =
     \<lparr>status_code = 200, x_ratelimit_remaining = None, x_ratelimit_reset = None,
      json = Some \<lparr>items = Val [bounty_item]\<rparr>\<rparr>"

definition fresh_start :: world where
  "fresh_start =
     quiet\<lparr>repositories := [], search_replies := [Responded headerless_page],
           repo_replies := [ok_response tool_payload]\<rparr>"

text \<open>A state that answers the first search request with one page of the given items.\<close>

definition serving :: "raw_issue list \<Rightarrow> world" where
  "serving page_items = quiet\<lparr>search_replies := [ok_response \<lparr>items = Val page_items\<rparr>]\<rparr>"


section \<open>The extractor on the reference examples\<close>

lemma amount_example_1: "extract_bounty_amount ''Fix this bug - $150 bounty'' = Inr 15000"
  by code_simp

lemma amount_example_2: "extract_bounty_amount ''Reward: 75 USD for completion'' = Inr 7500"
  by code_simp

lemma amount_example_3: "extract_bounty_amount ''$1,250.50 prize available'' = Inr 125050"
  by code_simp

lemma amount_example_4: "extract_bounty_amount ''no money mentioned here'' = Inr 0"
  by code_simp

lemma amount_example_5: "extract_bounty_amount ''small $10 tip but bounty: $500'' = Inr 50000"
  by code_simp

lemma source_example_1: "determine_bounty_source ''Posted via gitcoin'' = Some ''gitcoin''"
  by code_simp

lemma source_example_2: "determine_bounty_source ''just a bounty'' = Some ''custom''"
  by code_simp

lemma source_example_3: "determine_bounty_source ''nothing relevant'' = None"
  by code_simp

text \<open>
  Claim C1. On the reference examples \<^verbatim>\<open>extract_bounty_amount\<close> returns 15000, 7500,
  125050, 0 and 50000 (the largest of the matches 10 and 500 dollars), without raising, and
  \<^verbatim>\<open>determine_bounty_source\<close> returns \<^verbatim>\<open>"gitcoin"\<close>, \<^verbatim>\<open>"custom"\<close> and
  \<^verbatim>\<open>None\<close>.
\<close>

theorem reference_examples:
  "extract_bounty_amount ''Fix this bug - $150 bounty'' = Inr 15000 \<and>
   extract_bounty_amount ''Reward: 75 USD for completion'' = Inr 7500 \<and>
   extract_bounty_amount ''$1,250.50 prize available'' = Inr 125050 \<and>
   extract_bounty_amount ''no money mentioned here'' = Inr 0 \<and>
   extract_bounty_amount ''small $10 tip but bounty: $500'' = Inr 50000 \<and>
   determine_bounty_source ''Posted via gitcoin'' = Some ''gitcoin'' \<and>
   determine_bounty_source ''just a bounty'' = Some ''custom'' \<and>
   determine_bounty_source ''nothing relevant'' = None"
  using amount_example_1 amount_example_2 amount_example_3 amount_example_4 amount_example_5
    source_example_1 source_example_2 source_example_3
  by blast

section \<open>The cents conversion truncates the binary product\<close>

lemma findall_29: "findall pat_dollar ''$0.29'' = [''0.29'']"
  by code_simp

lemma float_29: "py_float ''0.29'' = Inr (Finite 5224175567749775 (- 54))"
  by code_simp

lemma product_29: "fmul (Finite 5224175567749775 (- 54)) 100 = Finite 8162774324609023 (- 48)"
  by code_simp

lemma round_29: "spec_round (Finite 8162774324609023 (- 48)) = Inr 29"
  by code_simp

lemma int_29: "int_of_float (Finite 8162774324609023 (- 48)) = Inr 28"
  by code_simp

lemma extract_29: "extract_bounty_amount ''$0.29'' = Inr 28"
  by code_simp

text \<open>
  Claim C2, at the text \<^verbatim>\<open>$0.29\<close>. The only match is \<^verbatim>\<open>0.29\<close>; \<^verbatim>\<open>float("0.29")\<close> is
  the binary64 number \<open>5224175567749775 / 2 ^ 54\<close>, just below 0.29; its product with 100
  is the binary64 number \<open>8162774324609023 / 2 ^ 48\<close>, just below 29. Rounding that product
  gives 29 cents; the code's \<^verbatim>\<open>int(amount * 100)\<close> truncates it, and
  \<^verbatim>\<open>extract_bounty_amount\<close> returns 28.
\<close>

theorem extract_truncates_29_cents:
  "findall pat_dollar ''$0.29'' = [''0.29''] \<and>
   py_float ''0.29'' = Inr (Finite 5224175567749775 (- 54)) \<and>
   fmul (Finite 5224175567749775 (- 54)) 100 = Finite 8162774324609023 (- 48) \<and>
   spec_round (Finite 8162774324609023 (- 48)) = Inr 29 \<and>
   int_of_float (Finite 8162774324609023 (- 48)) = Inr 28 \<and>
   extract_bounty_amount ''$0.29'' = Inr 28"
  using findall_29 float_29 product_29 round_29 int_29 extract_29
  by blast


section \<open>What a request changes\<close>

lemma make_request_tables:
  "make_request rq oc w = (r, w') \<Longrightarrow>
   issues w' = issues w \<and> repositories w' = repositories w \<and> label_rows w' = label_rows w \<and>
   comment_rows w' = comment_rows w \<and> next_id w' = next_id w \<and> now w' = now w"
  by (auto simp: make_request_def Let_def split: outcome.splits sum.splits option.splits if_splits)

lemma make_request_data:
  "fst (make_request rq oc w) = fst (make_request rq' oc w')"
  by (simp add: make_request_def Let_def split: outcome.splits sum.splits option.splits)

lemma make_request_remaining_absent:
  "x_ratelimit_remaining r = None \<Longrightarrow>
   rate_limit_remaining (snd (make_request rq (Responded r) w)) = 0"
  by (simp add: make_request_def Let_def split: option.splits sum.splits)

lemma make_request_remaining_present:
  "x_ratelimit_remaining r = Some v \<Longrightarrow> py_int v = Inr n \<Longrightarrow>
   rate_limit_remaining (snd (make_request rq (Responded r) w)) = n"
  by (simp add: make_request_def Let_def split: option.splits sum.splits)

lemma update_repository_data_issues:
  "update_repository_data w r = (res, w') \<Longrightarrow> issues w' = issues w \<and> label_rows w' = label_rows w"
  by (auto simp: update_repository_data_def update_bounty_stats_def Let_def
      split: prod.splits option.splits sum.splits if_splits dest!: make_request_tables)

lemma get_or_create_repository_issues:
  "get_or_create_repository w owner name = (res, w') \<Longrightarrow>
   issues w' = issues w \<and> label_rows w' = label_rows w"
  by (auto simp: get_or_create_repository_def Let_def
      split: prod.splits option.splits sum.splits if_splits
      dest!: make_request_tables update_repository_data_issues)

section \<open>The issue upsert keeps the bounty flag and the amount together\<close>

lemma process_issue_labels_fields:
  "process_issue_labels committed ls (i, p, k) = Inr (i', p', k') \<Longrightarrow>
   i' = i\<lparr>labels := labels i'\<rparr>"
proof (induction ls arbitrary: i p k)
  case Nil
  then show ?case by simp
next
  case (Cons l ls)
  then show ?case
    by (auto simp: Let_def split: option.splits if_splits dest!: Cons.IH)
qed

lemma new_issue_amount:
  "new_issue key t gid d repository ro rn amount = Inr i \<Longrightarrow>
   bounty_amount i = amount \<and> has_bounty i = (0 < amount) \<and> github_id i = gid"
  by (auto simp: new_issue_def split: sum.splits)

lemma update_from_github_keys:
  "update_from_github t d i = Inr i' \<Longrightarrow> issue_id i' = issue_id i \<and> github_id i' = github_id i"
  by (auto simp: update_from_github_def Let_def split: sum.splits)

lemma upsert_row_amount:
  "upsert_row w1 d ex gid repository ro rn amount = Inr i \<Longrightarrow>
   bounty_amount i = amount \<and> has_bounty i = (0 < amount)"
  by (auto simp: upsert_row_def split: option.splits sum.splits dest!: new_issue_amount)

lemma upsert_row_key:
  "upsert_row w1 d (Some existing) gid repository ro rn amount = Inr i \<Longrightarrow>
   issue_id i = issue_id existing"
  by (auto simp: upsert_row_def split: sum.splits dest!: update_from_github_keys)

lemma label_step_fields:
  "label_step w1 d i = Inr (i', p, k) \<Longrightarrow> i' = i\<lparr>labels := labels i'\<rparr>"
  by (auto simp: label_step_def split: field.splits dest: process_issue_labels_fields)

lemma label_step_amount:
  assumes "label_step w1 d i = Inr (i', p, k)"
  shows "bounty_amount i' = bounty_amount i \<and> has_bounty i' = has_bounty i \<and>
         issue_id i' = issue_id i"
proof -
  from label_step_fields [OF assms] have "i' = i\<lparr>labels := labels i'\<rparr>" .
  then have "bounty_amount i' = bounty_amount (i\<lparr>labels := labels i'\<rparr>)"
    "has_bounty i' = has_bounty (i\<lparr>labels := labels i'\<rparr>)"
    "issue_id i' = issue_id (i\<lparr>labels := labels i'\<rparr>)"
    by simp_all
  then show ?thesis by simp
qed

lemma find_github_id:
  "find (\<lambda>i. github_id i = gid) xs = Some x \<Longrightarrow> x \<in> set xs \<and> github_id x = gid"
  by (induction xs) (auto split: if_splits)

lemma replace_issue_mem:
  "x \<in> set xs \<Longrightarrow> issue_id x = issue_id i \<Longrightarrow> i \<in> set (replace_issue i xs)"
  by (force simp: replace_issue_def)

lemma list_all_replace_issue:
  "list_all P xs \<Longrightarrow> P i \<Longrightarrow> list_all P (replace_issue i xs)"
  by (induction xs) (simp_all add: replace_issue_def)

text \<open>What a successful upsert has done.\<close>

lemma process_issue_success:
  assumes "process_issue_from_search w d m = (Inr (Some i), w')"
  shows "\<exists>gid amount w1 repository i0 p k ro rn.
           str_id (item_id d) = Inr gid \<and>
           extract_bounty_amount (issue_text d) = Inr amount \<and> \<not> amount < m \<and>
           get_or_create_repository w ro rn = (Inr (Some repository), w1) \<and>
           upsert_row w1 d (find (\<lambda>x. github_id x = gid) (issues w)) gid repository ro rn amount = Inr i0 \<and>
           label_step w1 d i0 = Inr (i, p, k) \<and>
           issues w' = (case find (\<lambda>x. github_id x = gid) (issues w) of
                          Some _ \<Rightarrow> replace_issue i (issues w1)
                        | None \<Rightarrow> issues w1 @ [i])"
  using assms
  apply (clarsimp simp: process_issue_from_search_def commit_issue_def Let_def
      split: sum.splits option.splits prod.splits if_splits)
   apply (intro exI conjI, assumption, assumption, assumption, simp)
  apply (intro exI conjI, assumption, assumption, assumption, simp)
  done

lemma process_issue_no_write:
  assumes "process_issue_from_search w d m = (res, w')"
    and "\<And>i. res \<noteq> Inr (Some i)"
  shows "issues w' = issues w"
  using assms
  by (auto simp: process_issue_from_search_def commit_issue_def Let_def
      split: sum.splits option.splits prod.splits if_splits
      dest!: get_or_create_repository_issues)

lemma process_issue_written:
  assumes "process_issue_from_search w d m = (Inr (Some i), w')"
  shows "issues w' = replace_issue i (issues w) \<or> issues w' = issues w @ [i]"
proof -
  from process_issue_success [OF assms] have "\<exists>gid w1 repository ro rn.
      get_or_create_repository w ro rn = (Inr (Some repository), w1) \<and>
      issues w' = (case find (\<lambda>x. github_id x = gid) (issues w) of
                          Some _ \<Rightarrow> replace_issue i (issues w1)
                        | None \<Rightarrow> issues w1 @ [i])"
    by (elim exE conjE) (intro exI conjI)
  then obtain gid w1 repository ro rn where
    repo: "get_or_create_repository w ro rn = (Inr (Some repository), w1)"
    and tab: "issues w' = (case find (\<lambda>x. github_id x = gid) (issues w) of
                          Some _ \<Rightarrow> replace_issue i (issues w1)
                        | None \<Rightarrow> issues w1 @ [i])"
    by (elim exE conjE)
  from get_or_create_repository_issues [OF repo] have "issues w1 = issues w"
    by simp
  with tab show ?thesis
    by (simp split: option.splits)
qed

lemma process_issue_flag:
  assumes ok: "process_issue_from_search w d min_amount = (Inr (Some i), w')"
  shows "flag_agrees i" and "extract_bounty_amount (issue_text d) = Inr (bounty_amount i)"
    and "i \<in> set (issues w')"
proof -
  from process_issue_success [OF ok] have "\<exists>gid amount w1 repository i0 p k ro rn.
           extract_bounty_amount (issue_text d) = Inr amount \<and>
           get_or_create_repository w ro rn = (Inr (Some repository), w1) \<and>
           upsert_row w1 d (find (\<lambda>x. github_id x = gid) (issues w)) gid repository ro rn amount = Inr i0 \<and>
           label_step w1 d i0 = Inr (i, p, k) \<and>
           issues w' = (case find (\<lambda>x. github_id x = gid) (issues w) of
                          Some _ \<Rightarrow> replace_issue i (issues w1)
                        | None \<Rightarrow> issues w1 @ [i])"
    by (elim exE conjE) (intro exI conjI)
  then obtain gid amount w1 repository i0 p k ro rn where
    ex: "extract_bounty_amount (issue_text d) = Inr amount"
    and repo: "get_or_create_repository w ro rn = (Inr (Some repository), w1)"
    and row: "upsert_row w1 d (find (\<lambda>x. github_id x = gid) (issues w)) gid repository ro rn amount = Inr i0"
    and lab: "label_step w1 d i0 = Inr (i, p, k)"
    and tab: "issues w' = (case find (\<lambda>x. github_id x = gid) (issues w) of
                          Some _ \<Rightarrow> replace_issue i (issues w1)
                        | None \<Rightarrow> issues w1 @ [i])"
    by (elim exE conjE)
  from upsert_row_amount [OF row] label_step_amount [OF lab]
  have amt: "bounty_amount i = amount" "has_bounty i = (0 < amount)"
    by simp_all
  then show "flag_agrees i"
    by (simp add: flag_agrees_def)
  from amt ex show "extract_bounty_amount (issue_text d) = Inr (bounty_amount i)"
    by simp
  from get_or_create_repository_issues [OF repo] have same: "issues w1 = issues w"
    by simp
  show "i \<in> set (issues w')"
  proof (cases "find (\<lambda>x. github_id x = gid) (issues w)")
    case None
    with tab show ?thesis by simp
  next
    case (Some existing)
    with row have "issue_id i0 = issue_id existing"
      by (simp add: upsert_row_key)
    with label_step_amount [OF lab] have "issue_id existing = issue_id i"
      by simp
    moreover from find_github_id [OF Some] have "existing \<in> set (issues w)"
      by simp
    ultimately have "i \<in> set (replace_issue i (issues w))"
      using replace_issue_mem [of existing "issues w" i] by simp
    with Some tab same show ?thesis by simp
  qed
qed

text \<open>
  Claim C3. When \<^verbatim>\<open>process_issue_from_search\<close> returns an issue (from its create branch
  or from its update branch, for any payload and any \<^verbatim>\<open>min_amount\<close>), the returned
  issue is a row of the table after the call, its \<^verbatim>\<open>bounty_amount\<close> is the amount
  extracted from the payload's text, and its \<^verbatim>\<open>has_bounty\<close> is \<^verbatim>\<open>bounty_amount > 0\<close>.
  Whatever the call does, if flag and amount agreed on every stored issue before, they agree
  on every stored issue after.
\<close>

theorem bounty_flag_invariant:
  "(process_issue_from_search w d min_amount = (Inr (Some i), w') \<longrightarrow>
      flag_agrees i \<and> extract_bounty_amount (issue_text d) = Inr (bounty_amount i) \<and>
      i \<in> set (issues w')) \<and>
   (list_all flag_agrees (issues w) \<longrightarrow>
      list_all flag_agrees (issues (snd (process_issue_from_search w d min_amount))))"
proof (intro conjI impI)
  assume ok: "process_issue_from_search w d min_amount = (Inr (Some i), w')"
  show "flag_agrees i"
    by (rule process_issue_flag(1) [OF ok])
  show "extract_bounty_amount (issue_text d) = Inr (bounty_amount i)"
    by (rule process_issue_flag(2) [OF ok])
  show "i \<in> set (issues w')"
    by (rule process_issue_flag(3) [OF ok])
next
  assume inv: "list_all flag_agrees (issues w)"
  obtain res w' where run: "process_issue_from_search w d min_amount = (res, w')"
    by (cases "process_issue_from_search w d min_amount")
  show "list_all flag_agrees (issues (snd (process_issue_from_search w d min_amount)))"
  proof (cases "\<exists>i. res = Inr (Some i)")
    case True
    then obtain j where res: "res = Inr (Some j)" ..
    with run have ok: "process_issue_from_search w d min_amount = (Inr (Some j), w')"
      by simp
    have "flag_agrees j"
      by (rule process_issue_flag(1) [OF ok])
    with process_issue_written [OF ok] inv run show ?thesis
      by (auto simp: list_all_replace_issue)
  next
    case False
    with process_issue_no_write [OF run] have "issues w' = issues w"
      by simp
    with inv run show ?thesis by simp
  qed
qed

lemma first_upsert: "process_issue_from_search quiet bounty_item 5000 = (Inr (Some (hd (issues tracked))), tracked)"
  by code_simp

lemma first_upsert_row:
  "issues quiet = [] \<and> length (issues tracked) = 1 \<and> bounty_amount (hd (issues tracked)) = 15000 \<and>
   has_bounty (hd (issues tracked))"
  by code_simp

theorem bounty_flag_invariant_witness:
  "process_issue_from_search quiet bounty_item 5000 = (Inr (Some (hd (issues tracked))), tracked) \<and>
   flag_agrees (hd (issues tracked)) \<and>
   extract_bounty_amount (issue_text bounty_item) = Inr (bounty_amount (hd (issues tracked))) \<and>
   hd (issues tracked) \<in> set (issues tracked) \<and>
   list_all flag_agrees (issues quiet) \<and>
   list_all flag_agrees (issues (snd (process_issue_from_search quiet bounty_item 5000))) \<and>
   bounty_amount (hd (issues tracked)) = 15000 \<and> has_bounty (hd (issues tracked))"
proof -
  have empty: "list_all flag_agrees (issues quiet)"
    using first_upsert_row by simp
  from bounty_flag_invariant [of quiet bounty_item 5000 "hd (issues tracked)" tracked]
    first_upsert empty first_upsert_row
  show ?thesis
    by simp
qed

section \<open>Exceptions leave the crawl\<close>

lemma crawl_missing_id:
  "fst (search_bounty_issues (serving [no_keys]) ''bounty OR reward OR prize'' None 5000 100 10) =
     Inl KeyError"
  by code_simp

lemma crawl_bad_timestamp:
  "fst (search_bounty_issues (serving [bounty_item\<lparr>item_created_at := Val Malformed\<rparr>])
          ''bounty OR reward OR prize'' None 5000 100 10) = Inl ValueError"
  by code_simp

lemma crawl_loses_found:
  "fst (search_bounty_issues (serving [bounty_item, no_keys])
          ''bounty OR reward OR prize'' None 5000 100 10) = Inl KeyError \<and>
   map github_id
     (issues (snd (search_bounty_issues (serving [bounty_item, no_keys])
                     ''bounty OR reward OR prize'' None 5000 100 10))) = [''101'']"
  by code_simp

text \<open>
  Claim C4, at three pages that the upstream can answer a search with. A page whose only
  item has no key makes \<^verbatim>\<open>search_bounty_issues\<close> raise \<^verbatim>\<open>KeyError\<close> (from
  \<^verbatim>\<open>github_data["id"]\<close>); a page whose only item is a well-formed new bounty issue with
  an unparseable \<^verbatim>\<open>created_at\<close> makes it raise \<^verbatim>\<open>ValueError\<close>; and on a page with a
  well-formed bounty issue followed by an item with no key, the first issue is stored and
  the crawl then raises instead of returning it.
\<close>

theorem crawl_raises:
  "fst (search_bounty_issues (serving [no_keys]) ''bounty OR reward OR prize'' None 5000 100 10) =
     Inl KeyError \<and>
   fst (search_bounty_issues (serving [bounty_item\<lparr>item_created_at := Val Malformed\<rparr>])
          ''bounty OR reward OR prize'' None 5000 100 10) = Inl ValueError \<and>
   fst (search_bounty_issues (serving [bounty_item, no_keys])
          ''bounty OR reward OR prize'' None 5000 100 10) = Inl KeyError \<and>
   map github_id
     (issues (snd (search_bounty_issues (serving [bounty_item, no_keys])
                     ''bounty OR reward OR prize'' None 5000 100 10))) = [''101'']"
  using crawl_missing_id crawl_bad_timestamp crawl_loses_found
  by simp

section \<open>The threshold comes before both branches\<close>

text \<open>
  Claim C5, as the code has it. When the payload has an id and the amount extracted from
  its text is strictly below \<^verbatim>\<open>min_amount\<close>, \<^verbatim>\<open>process_issue_from_search\<close> returns
  \<^verbatim>\<open>None\<close> and leaves the whole state as it was (no row changed, no request sent),
  whether or not an issue with that external id is stored: the threshold gates the update
  as well as the creation.
\<close>

theorem threshold_gates_update:
  assumes "item_id d \<noteq> Missing"
    and "extract_bounty_amount (issue_text d) = Inr amount"
    and "amount < min_amount"
  shows "process_issue_from_search w d min_amount = (Inr None, w)"
  using assms
  by (simp add: process_issue_from_search_def str_id_def Let_def split: field.splits)

lemma withdrawn_amount:
  "item_id withdrawn_item \<noteq> Missing \<and> extract_bounty_amount (issue_text withdrawn_item) = Inr 0"
  by code_simp

theorem threshold_gates_update_witness:
  "item_id withdrawn_item \<noteq> Missing \<and>
   extract_bounty_amount (issue_text withdrawn_item) = Inr 0 \<and> (0 :: int) < 5000 \<and>
   process_issue_from_search quiet withdrawn_item 5000 = (Inr None, quiet)"
proof -
  have "item_id withdrawn_item \<noteq> Missing"
    and "extract_bounty_amount (issue_text withdrawn_item) = Inr 0"
    using withdrawn_amount by simp_all
  moreover have "(0 :: int) < 5000"
    by simp
  ultimately show ?thesis
    using threshold_gates_update [of withdrawn_item 0 5000 quiet] by simp
qed

text \<open>
  Claim C5 as stated fails: the issue with external id 101 is stored with the amount 15000;
  the upstream now shows it without a bounty (extracted amount 0, below the threshold
  5000); the upsert returns \<^verbatim>\<open>None\<close> and the stored row keeps the amount 15000 instead of
  being updated with the newly extracted amount.
\<close>

theorem threshold_blocks_update:
  "map github_id (issues tracked) = [''101''] \<and>
   map bounty_amount (issues tracked) = [15000] \<and>
   str_id (item_id withdrawn_item) = Inr ''101'' \<and>
   extract_bounty_amount (issue_text withdrawn_item) = Inr 0 \<and>
   fst (process_issue_from_search tracked withdrawn_item 5000) = Inr None \<and>
   map bounty_amount (issues (snd (process_issue_from_search tracked withdrawn_item 5000))) =
     [15000]"
  by code_simp


section \<open>The repository cache\<close>

lemma make_request_sent:
  "sent (snd (make_request rq oc w)) = sent w @ [rq]"
  by (simp add: make_request_def Let_def split: outcome.splits sum.splits option.splits)

lemma make_request_repositories:
  "repositories (snd (make_request rq oc w)) = repositories w"
  by (simp add: make_request_def Let_def split: outcome.splits sum.splits option.splits)

text \<open>The age in whole days is at least one exactly from 86400 seconds on.\<close>

lemma stale_iff: "(1 \<le> (x :: int) div 86400) = (86400 \<le> x)"
proof -
  have "(0 < x div 86400) = (86400 \<le> x)"
    using pos_imp_zdiv_pos_iff [of 86400 x] by simp
  moreover have "(1 \<le> x div 86400) = (0 < x div 86400)"
    by linarith
  ultimately show ?thesis
    by (rule_tac trans)
qed

text \<open>A stored repository fetched less than 24 hours ago is returned without a request.\<close>

lemma repository_cache_hit:
  assumes "find (\<lambda>r. repo_full_name r = owner @ ''/'' @ name) (repositories w) = Some r"
    and "repo_last_fetched_at r = Some t"
    and "now w - t < 86400"
  shows "get_or_create_repository w owner name = (Inr (Some r), w)"
proof -
  from assms(3) have "\<not> 1 \<le> (now w - t) div 86400"
    by (simp add: stale_iff)
  with assms(1,2) show ?thesis
    by (simp add: get_or_create_repository_def)
qed

text \<open>
  A stored repository fetched 24 hours ago or earlier is refreshed with exactly one
  request; when that request gives no result, the stored row is returned as it is.
\<close>

lemma repository_refresh_request:
  assumes "find (\<lambda>r. repo_full_name r = owner @ ''/'' @ name) (repositories w) = Some r"
    and "repo_last_fetched_at r = Some t"
    and "86400 \<le> now w - t"
  shows "sent (snd (get_or_create_repository w owner name)) = sent w @ [GetRepo (repo_full_name r)]"
proof -
  from assms(3) have "1 \<le> (now w - t) div 86400"
    by (simp add: stale_iff)
  with assms(1,2) show ?thesis
    using make_request_sent
      [of "GetRepo (repo_full_name r)" "fst (next_reply (repo_replies w))"
        "w\<lparr>repo_replies := snd (next_reply (repo_replies w))\<rparr>"]
    by (auto simp: get_or_create_repository_def update_repository_data_def
        update_bounty_stats_def Let_def
        split: prod.splits option.splits sum.splits)
qed

lemma repository_refresh_failure:
  assumes "find (\<lambda>r. repo_full_name r = owner @ ''/'' @ name) (repositories w) = Some r"
    and "repo_last_fetched_at r = Some t"
    and "86400 \<le> now w - t"
    and "fst (make_request (GetRepo (repo_full_name r)) (fst (next_reply (repo_replies w)))
              (w\<lparr>repo_replies := snd (next_reply (repo_replies w))\<rparr>)) = None"
  shows "fst (get_or_create_repository w owner name) = Inr (Some r) \<and>
         repositories (snd (get_or_create_repository w owner name)) = repositories w"
proof -
  from assms(3) have "1 \<le> (now w - t) div 86400"
    by (simp add: stale_iff)
  with assms(1,2,4) show ?thesis
    using make_request_repositories
      [of "GetRepo (repo_full_name r)" "fst (next_reply (repo_replies w))"
        "w\<lparr>repo_replies := snd (next_reply (repo_replies w))\<rparr>"]
    by (auto simp: get_or_create_repository_def update_repository_data_def Let_def
        split: prod.splits option.splits sum.splits)
qed

text \<open>When the refresh request gives a payload, the call raises and commits nothing.\<close>

lemma repository_refresh_success:
  assumes "find (\<lambda>r. repo_full_name r = owner @ ''/'' @ name) (repositories w) = Some r"
    and "repo_last_fetched_at r = Some t"
    and "86400 \<le> now w - t"
    and "fst (make_request (GetRepo (repo_full_name r)) (fst (next_reply (repo_replies w)))
              (w\<lparr>repo_replies := snd (next_reply (repo_replies w))\<rparr>)) = Some d"
    and "d \<noteq> empty_repo"
  shows "(\<exists>e. fst (get_or_create_repository w owner name) = Inl e) \<and>
         repositories (snd (get_or_create_repository w owner name)) = repositories w"
proof -
  from assms(3) have "1 \<le> (now w - t) div 86400"
    by (simp add: stale_iff)
  with assms(1,2,4,5) show ?thesis
    using make_request_repositories
      [of "GetRepo (repo_full_name r)" "fst (next_reply (repo_replies w))"
        "w\<lparr>repo_replies := snd (next_reply (repo_replies w))\<rparr>"]
    by (auto simp: get_or_create_repository_def update_repository_data_def
        update_bounty_stats_def Let_def
        split: prod.splits option.splits sum.splits)
qed

lemma stale_state:
  "find (\<lambda>r. repo_full_name r = ''acme'' @ ''/'' @ ''tool'') (repositories stale) = Some acme_tool \<and>
   repo_last_fetched_at acme_tool = Some 0 \<and> now stale - 0 = 25 * 3600 \<and>
   fst (make_request (GetRepo ''acme/tool'') (fst (next_reply (repo_replies stale)))
          (stale\<lparr>repo_replies := snd (next_reply (repo_replies stale))\<rparr>)) = Some tool_payload"
  by code_simp

lemma stale_refresh:
  "fst (get_or_create_repository stale ''acme'' ''tool'') = Inl AttributeError \<and>
   repositories (snd (get_or_create_repository stale ''acme'' ''tool'')) = [acme_tool] \<and>
   sent (snd (get_or_create_repository stale ''acme'' ''tool'')) = [GetRepo ''acme/tool'']"
  by code_simp

text \<open>
  Claim C6, at a stored repository that was fetched 25 hours ago and whose refresh request
  is answered with status 200 and a well-formed payload. \<^verbatim>\<open>get_or_create_repository\<close>
  sends the one refresh request and then raises \<^verbatim>\<open>AttributeError\<close> (from
  \<^verbatim>\<open>update_bounty_stats\<close>, before the commit): the stored row keeps all its fields, its
  fetch counter and its timestamp.
\<close>

theorem refresh_success_raises:
  "find (\<lambda>r. repo_full_name r = ''acme'' @ ''/'' @ ''tool'') (repositories stale) = Some acme_tool \<and>
   repo_last_fetched_at acme_tool = Some 0 \<and> now stale - 0 = 25 * 3600 \<and>
   fst (make_request (GetRepo ''acme/tool'') (fst (next_reply (repo_replies stale)))
          (stale\<lparr>repo_replies := snd (next_reply (repo_replies stale))\<rparr>)) = Some tool_payload \<and>
   fst (get_or_create_repository stale ''acme'' ''tool'') = Inl AttributeError \<and>
   repositories (snd (get_or_create_repository stale ''acme'' ''tool'')) = [acme_tool] \<and>
   sent (snd (get_or_create_repository stale ''acme'' ''tool'')) = [GetRepo ''acme/tool'']"
  using stale_state stale_refresh
  by simp

section \<open>The budget check of the crawl\<close>

lemma search_pages_no_budget:
  "rate_limit_remaining w < 10 \<Longrightarrow> search_pages q pp m pages found w = (Inr found, w)"
  by (cases pages) simp_all

text \<open>
  Claim C7, as the code has it. The budget check stands before each page of the loop: in
  any state of the loop (any pages still to visit, any issues found so far) in which the
  recorded remaining count is below 10, the crawl sends no request, changes nothing and
  returns the issues found so far; so a page request is sent only when the remaining count
  is at least 10, and a crawl started with a remaining count below 10 (5, say) returns the
  empty list at once, for any \<^verbatim>\<open>max_pages\<close>.
\<close>

theorem crawl_stops_below_ten:
  assumes "rate_limit_remaining w < 10"
  shows "search_pages q per_page min_amount pages found w = (Inr found, w) \<and>
         search_bounty_issues w query language min_amount per_page max_pages = (Inr [], w)"
  using assms by (simp add: search_pages_no_budget search_bounty_issues_def)

theorem crawl_stops_below_ten_witness:
  "rate_limit_remaining (quiet\<lparr>rate_limit_remaining := 5\<rparr>) < 10 \<and>
   search_pages ''bounty'' 100 5000 [3, 4, 5] (issues tracked) (quiet\<lparr>rate_limit_remaining := 5\<rparr>) =
     (Inr (issues tracked), quiet\<lparr>rate_limit_remaining := 5\<rparr>) \<and>
   search_bounty_issues (quiet\<lparr>rate_limit_remaining := 5\<rparr>) ''bounty'' None 5000 100 5 =
     (Inr [], quiet\<lparr>rate_limit_remaining := 5\<rparr>)"
proof -
  have h: "rate_limit_remaining (quiet\<lparr>rate_limit_remaining := 5\<rparr>) < 10"
    by simp
  from crawl_stops_below_ten [OF h] h show ?thesis
    by blast
qed

text \<open>
  Claim C7 as stated fails at the threshold itself: with a recorded remaining count of
  exactly 10, which is not above 10, the crawl sends the request for page 1.
\<close>

theorem request_sent_at_ten:
  "rate_limit_remaining (quiet\<lparr>rate_limit_remaining := 10\<rparr>) = 10 \<and>
   \<not> 10 < rate_limit_remaining (quiet\<lparr>rate_limit_remaining := 10\<rparr>) \<and>
   sent (quiet\<lparr>rate_limit_remaining := 10\<rparr>) = [] \<and>
   sent (snd (search_bounty_issues (quiet\<lparr>rate_limit_remaining := 10\<rparr>) ''bounty'' None 5000 100 5)) =
     [SearchIssues ''bounty in:title,body ($ OR USD OR dollars)'' 100 1]"
  by code_simp

section \<open>Upserting the same payload twice\<close>

lemma second_upsert:
  "fst (process_issue_from_search tracked bounty_item 5000) = Inr (Some (hd (issues retracked)))"
  by code_simp

lemma upserted_rows:
  "length (issues tracked) = 1 \<and> github_closed_at (hd (issues tracked)) = None \<and>
   fetch_count (hd (issues tracked)) = 1 \<and> labels (hd (issues tracked)) = [2] \<and>
   length (issues retracked) = 1 \<and> github_closed_at (hd (issues retracked)) = Some (- 100) \<and>
   fetch_count (hd (issues retracked)) = 2 \<and> labels (hd (issues retracked)) = [2] \<and>
   length (label_rows tracked) = 1 \<and> length (label_rows retracked) = 1"
  by code_simp

text \<open>
  The same happens to the body of an issue whose payload has \<^verbatim>\<open>"body": null\<close>: the
  first upsert stores the empty string, the second one stores \<^verbatim>\<open>NULL\<close>.
\<close>

lemma null_body_twice:
  "map body (issues (snd (process_issue_from_search quiet (bounty_item\<lparr>item_body := Null\<rparr>) 5000))) =
     [Some ''''] \<and>
   map body
     (issues (snd (process_issue_from_search
                     (snd (process_issue_from_search quiet (bounty_item\<lparr>item_body := Null\<rparr>) 5000))
                     (bounty_item\<lparr>item_body := Null\<rparr>) 5000))) = [None]"
  by code_simp

text \<open>
  Claim C8, at the payload of a closed issue (state \<^verbatim>\<open>closed\<close>, with a \<^verbatim>\<open>closed_at\<close>
  timestamp) upserted twice. Both calls return the issue; there is one row after each, the
  label association has one entry after each, and the fetch counter goes from 1 to 2. But
  the first call (the create branch) leaves \<^verbatim>\<open>github_closed_at\<close> empty, and the second
  call (the update branch) sets it to the payload's timestamp: a field of the stored issue
  that is not a freshness marker changes on the second call.
\<close>

theorem second_upsert_changes_closed_at:
  "process_issue_from_search quiet bounty_item 5000 = (Inr (Some (hd (issues tracked))), tracked) \<and>
   fst (process_issue_from_search tracked bounty_item 5000) = Inr (Some (hd (issues retracked))) \<and>
   length (issues tracked) = 1 \<and> github_closed_at (hd (issues tracked)) = None \<and>
   fetch_count (hd (issues tracked)) = 1 \<and> labels (hd (issues tracked)) = [2] \<and>
   length (issues retracked) = 1 \<and> github_closed_at (hd (issues retracked)) = Some (- 100) \<and>
   fetch_count (hd (issues retracked)) = 2 \<and> labels (hd (issues retracked)) = [2] \<and>
   length (label_rows tracked) = 1 \<and> length (label_rows retracked) = 1"
  using first_upsert second_upsert upserted_rows
  by simp

section \<open>CommentSync\<close>

lemma find_comment_None:
  "(find (\<lambda>c. comment_github_id c = gid) stored = None) = (gid \<notin> set (comment_ids stored))"
  by (induction stored) (auto simp: comment_ids_def)

lemma new_comments_known:
  "list_all (known_comment stored) cds \<Longrightarrow> new_comments stored iid key cds = Inr []"
  by (induction cds arbitrary: key)
    (auto simp: known_comment_def find_comment_None split: sum.splits option.splits)

lemma new_comments_fresh:
  "new_comments stored iid key cds = Inr cs \<Longrightarrow>
   list_all (\<lambda>c. comment_github_id c \<notin> set (comment_ids stored)) cs"
proof (induction cds arbitrary: key cs)
  case Nil
  then show ?case by simp
next
  case (Cons cd cds)
  then show ?case
    by (auto simp: find_comment_None split: sum.splits option.splits)
qed

lemma new_comments_covers:
  "new_comments stored iid key cds = Inr cs \<Longrightarrow>
   list_all (known_comment (stored @ cs)) cds"
proof (induction cds arbitrary: key cs)
  case Nil
  then show ?case by simp
next
  case (Cons cd cds)
  show ?case
  proof (cases "str_id (cd_id cd)")
    case (Inl e)
    with Cons.prems show ?thesis by simp
  next
    case (Inr gid)
    show ?thesis
    proof (cases "find (\<lambda>c. comment_github_id c = gid) stored")
      case None
      with Inr Cons.prems obtain c cs' where
        cs: "cs = c # cs'" and c: "comment_github_id c = gid"
        and rest: "new_comments stored iid (Suc key) cds = Inr cs'"
        by (auto split: sum.splits)
      from Cons.IH [OF rest] have "list_all (known_comment (stored @ cs')) cds" .
      then have "list_all (known_comment (stored @ cs)) cds"
        unfolding cs
        by (auto simp: list_all_iff known_comment_def comment_ids_def split: sum.splits)
      moreover from Inr c cs have "known_comment (stored @ cs) cd"
        by (simp add: known_comment_def comment_ids_def)
      ultimately show ?thesis
        by simp
    next
      case (Some existing)
      with Inr Cons.prems have rest: "new_comments stored iid key cds = Inr cs"
        by simp
      from Some have "gid \<in> set (comment_ids stored)"
        using find_comment_None [of gid stored] by simp
      with Inr have "known_comment (stored @ cs) cd"
        by (simp add: known_comment_def comment_ids_def)
      with Cons.IH [OF rest] show ?thesis
        by simp
    qed
  qed
qed

lemma fetch_nothing_new:
  assumes "list_all (known_comment (comment_rows w)) (upstream_comments w)"
  shows "fst (fetch_issue_comments w i) = Inr [] \<and>
         comment_rows (snd (fetch_issue_comments w i)) = comment_rows w"
proof -
  let ?rq = "GetComments (repository_full_name i) (github_number i)"
  let ?oc = "fst (next_reply (comment_replies w))"
  let ?w0 = "w\<lparr>comment_replies := snd (next_reply (comment_replies w))\<rparr>"
  obtain data w1 where mr: "make_request ?rq ?oc ?w0 = (data, w1)"
    by (cases "make_request ?rq ?oc ?w0")
  from make_request_tables [OF mr] have rows: "comment_rows w1 = comment_rows w"
    by simp
  have "data = fst (make_request (GetComments [] None) ?oc w)"
    using mr make_request_data [of ?rq ?oc ?w0 "GetComments [] None" w] by simp
  with assms have known: "\<And>cds. data = Some cds \<Longrightarrow> list_all (known_comment (comment_rows w1)) cds"
    by (simp add: upstream_comments_def rows)
  show ?thesis
  proof (cases data)
    case None
    with mr rows show ?thesis
      by (simp add: fetch_issue_comments_def)
  next
    case (Some cds)
    from known [OF Some] have "new_comments (comment_rows w1) (issue_id i) (next_id w1) cds = Inr []"
      by (rule new_comments_known)
    with Some mr rows show ?thesis
      by (simp add: fetch_issue_comments_def comments_insert_ok_def)
  qed
qed

lemma fetch_returns_fresh:
  assumes "fst (fetch_issue_comments w i) = Inr cs"
  shows "list_all (\<lambda>c. comment_github_id c \<notin> set (comment_ids (comment_rows w))) cs"
proof -
  let ?rq = "GetComments (repository_full_name i) (github_number i)"
  let ?oc = "fst (next_reply (comment_replies w))"
  let ?w0 = "w\<lparr>comment_replies := snd (next_reply (comment_replies w))\<rparr>"
  obtain data w1 where mr: "make_request ?rq ?oc ?w0 = (data, w1)"
    by (cases "make_request ?rq ?oc ?w0")
  from make_request_tables [OF mr] have rows: "comment_rows w1 = comment_rows w"
    by simp
  from assms mr show ?thesis
    by (auto simp: fetch_issue_comments_def rows split: option.splits if_splits sum.splits
        dest!: new_comments_fresh)
qed

lemma insert_keeps_distinct:
  assumes "distinct (comment_ids stored)" and "comments_insert_ok stored added"
  shows "distinct (comment_ids (stored @ added))"
proof -
  from assms(2) have fresh: "\<forall>c \<in> set added. comment_github_id c \<notin> set (comment_ids stored)"
    and added: "distinct (comment_ids added)"
    by (simp_all add: comments_insert_ok_def comment_ids_def list_all_iff)
  have "set (comment_ids stored) \<inter> set (comment_ids added) = {}"
  proof (rule ccontr)
    assume "set (comment_ids stored) \<inter> set (comment_ids added) \<noteq> {}"
    then obtain g where "g \<in> set (comment_ids stored)" and "g \<in> set (comment_ids added)"
      by blast
    then obtain c where "c \<in> set added" and "comment_github_id c = g"
      by (auto simp: comment_ids_def)
    with fresh \<open>g \<in> set (comment_ids stored)\<close> show False
      by blast
  qed
  with assms(1) added show ?thesis
    by (simp add: comment_ids_def)
qed

lemma fetch_keeps_distinct:
  assumes "distinct (comment_ids (comment_rows w))"
  shows "distinct (comment_ids (comment_rows (snd (fetch_issue_comments w i))))"
proof -
  let ?rq = "GetComments (repository_full_name i) (github_number i)"
  let ?oc = "fst (next_reply (comment_replies w))"
  let ?w0 = "w\<lparr>comment_replies := snd (next_reply (comment_replies w))\<rparr>"
  obtain data w1 where mr: "make_request ?rq ?oc ?w0 = (data, w1)"
    by (cases "make_request ?rq ?oc ?w0")
  from make_request_tables [OF mr] have rows: "comment_rows w1 = comment_rows w"
    by simp
  from assms mr show ?thesis
    by (auto simp: fetch_issue_comments_def rows insert_keeps_distinct
        split: option.splits if_splits sum.splits)
qed

lemma fetch_twice:
  assumes first: "fetch_issue_comments w i = (Inr cs, w1)"
    and saved: "comment_rows w1 = comment_rows w @ cs"
    and same: "fst (next_reply (comment_replies w1)) = fst (next_reply (comment_replies w))"
  shows "fst (fetch_issue_comments w1 i) = Inr [] \<and>
         comment_rows (snd (fetch_issue_comments w1 i)) = comment_rows w1"
proof (rule fetch_nothing_new)
  let ?rq = "GetComments (repository_full_name i) (github_number i)"
  let ?oc = "fst (next_reply (comment_replies w))"
  let ?w0 = "w\<lparr>comment_replies := snd (next_reply (comment_replies w))\<rparr>"
  obtain data w0 where mr: "make_request ?rq ?oc ?w0 = (data, w0)"
    by (cases "make_request ?rq ?oc ?w0")
  from make_request_tables [OF mr] have rows: "comment_rows w0 = comment_rows w"
    by simp
  have up: "upstream_comments w1 = (case data of None \<Rightarrow> [] | Some cds \<Rightarrow> cds)"
    using mr make_request_data [of "GetComments [] None" ?oc w1 ?rq ?w0]
    by (simp add: upstream_comments_def same)
  show "list_all (known_comment (comment_rows w1)) (upstream_comments w1)"
  proof (cases data)
    case None
    with up show ?thesis by simp
  next
    case (Some cds)
    show ?thesis
    proof (cases "cds = []")
      case True
      with Some up show ?thesis by simp
    next
      case False
      with first mr Some have "new_comments (comment_rows w0) (issue_id i) (next_id w0) cds = Inr cs"
        by (auto simp: fetch_issue_comments_def split: sum.splits if_splits)
      from new_comments_covers [OF this] Some up saved rows show ?thesis
        by simp
    qed
  qed
qed

text \<open>
  What does hold of the sync, for every state and issue: (1) when every comment that the
  upstream returns has an external id that is already stored, \<^verbatim>\<open>fetch_issue_comments\<close>
  returns the empty list and leaves the stored comments as they are; (2) no returned comment
  has an external id that was stored before the call; (3) when a first sync has stored what
  it returned and the upstream answers the next request as it answered the first, the
  second sync returns the empty list and stores nothing; (4) when no two stored comments
  share an external id before the call, none do after it.
\<close>

lemma sync_when_stored:
  "(list_all (known_comment (comment_rows w)) (upstream_comments w) \<longrightarrow>
      fst (fetch_issue_comments w i) = Inr [] \<and>
      comment_rows (snd (fetch_issue_comments w i)) = comment_rows w) \<and>
   (fst (fetch_issue_comments w i) = Inr cs \<longrightarrow>
      list_all (\<lambda>c. comment_github_id c \<notin> set (comment_ids (comment_rows w))) cs) \<and>
   (fetch_issue_comments w i = (Inr cs, w1) \<and> comment_rows w1 = comment_rows w @ cs \<and>
    fst (next_reply (comment_replies w1)) = fst (next_reply (comment_replies w)) \<longrightarrow>
      fst (fetch_issue_comments w1 i) = Inr [] \<and>
      comment_rows (snd (fetch_issue_comments w1 i)) = comment_rows w1) \<and>
   (distinct (comment_ids (comment_rows w)) \<longrightarrow>
      distinct (comment_ids (comment_rows (snd (fetch_issue_comments w i)))))"
  using fetch_nothing_new [of w i] fetch_returns_fresh [of w i cs] fetch_twice [of w i cs w1]
    fetch_keeps_distinct [of w i]
  by blast

text \<open>The sync of a well-formed comment, twice: one comment returned and stored, then none.\<close>

lemma first_sync:
  "fetch_issue_comments commented (hd (issues commented)) = (Inr (comment_rows synced), synced) \<and>
   comment_ids (comment_rows commented) = [] \<and>
   comment_ids (comment_rows synced) = [''9001''] \<and>
   fst (fetch_issue_comments synced (hd (issues commented))) = Inr []"
  by code_simp

text \<open>
  The list that the loop built is returned after the rollback too: the same comment twice
  in one answer breaks the unique external id at the commit, so two comments are returned
  and none is stored.
\<close>

lemma doubled_sync:
  "map_sum id comment_ids (fst (fetch_issue_comments doubled (hd (issues doubled)))) =
     Inr [''9001'', ''9001''] \<and>
   comment_rows (snd (fetch_issue_comments doubled (hd (issues doubled)))) = []"
  by code_simp

lemma unsaved_first:
  "map_sum id comment_ids (fst (fetch_issue_comments unsaved (hd (issues unsaved)))) =
     Inr [''9001''] \<and>
   comment_rows (snd (fetch_issue_comments unsaved (hd (issues unsaved)))) = []"
  by code_simp

lemma unsaved_second:
  "map_sum id comment_ids
     (fst (fetch_issue_comments (snd (fetch_issue_comments unsaved (hd (issues unsaved))))
             (hd (issues unsaved)))) = Inr [''9001''] \<and>
   comment_rows
     (snd (fetch_issue_comments (snd (fetch_issue_comments unsaved (hd (issues unsaved))))
             (hd (issues unsaved)))) = []"
  by code_simp

text \<open>
  Claim C9, at an issue whose one upstream comment has \<^verbatim>\<open>"body": null\<close>, synced twice
  in a row with the same upstream answer. The commit of the first sync fails on the
  \<^verbatim>\<open>NOT NULL\<close> column and is rolled back, yet \<^verbatim>\<open>fetch_issue_comments\<close> returns the
  comment: the returned list is not the inserted subset (nothing was inserted). The second
  sync, with no new upstream comment, returns the same comment again instead of the empty
  list, and still nothing is stored.
\<close>

theorem sync_returns_unsaved:
  "map_sum id comment_ids (fst (fetch_issue_comments unsaved (hd (issues unsaved)))) =
     Inr [''9001''] \<and>
   comment_rows (snd (fetch_issue_comments unsaved (hd (issues unsaved)))) = [] \<and>
   map_sum id comment_ids
     (fst (fetch_issue_comments (snd (fetch_issue_comments unsaved (hd (issues unsaved))))
             (hd (issues unsaved)))) = Inr [''9001''] \<and>
   comment_rows
     (snd (fetch_issue_comments (snd (fetch_issue_comments unsaved (hd (issues unsaved))))
             (hd (issues unsaved)))) = []"
  using unsaved_first unsaved_second
  by simp

section \<open>The remaining count follows every response\<close>

lemma make_request_remaining_garbled:
  "x_ratelimit_remaining r = Some v \<Longrightarrow> py_int v = Inl e \<Longrightarrow>
   make_request rq (Responded r) w = (None, w\<lparr>sent := sent w @ [rq]\<rparr>)"
  by (simp add: make_request_def Let_def)

text \<open>
  Claim C10, as the code has it. For every response that \<^verbatim>\<open>make_request\<close> receives,
  whatever its status code: when the header \<^verbatim>\<open>X-RateLimit-Remaining\<close> is absent the
  recorded remaining count becomes 0, and a budget check of the crawl made in the state
  that the response leaves fails: the loop sends no request and returns the issues found so
  far; when the header is present and is the text of an integer, the recorded remaining
  count becomes that integer (so a later response with the header restores the count); and
  when the header is present and is not the text of an integer, \<^verbatim>\<open>make_request\<close> returns
  \<^verbatim>\<open>None\<close> and the recorded count stays what it was.
\<close>

theorem remaining_overwritten:
  "(x_ratelimit_remaining r = None \<longrightarrow>
      rate_limit_remaining (snd (make_request rq (Responded r) w)) = 0 \<and>
      search_pages q per_page min_amount pages found (snd (make_request rq (Responded r) w)) =
        (Inr found, snd (make_request rq (Responded r) w))) \<and>
   (x_ratelimit_remaining r = Some v \<and> py_int v = Inr n \<longrightarrow>
      rate_limit_remaining (snd (make_request rq (Responded r) w)) = n) \<and>
   (x_ratelimit_remaining r = Some v \<and> py_int v = Inl e \<longrightarrow>
      make_request rq (Responded r) w = (None, w\<lparr>sent := sent w @ [rq]\<rparr>))"
  by (simp add: make_request_remaining_absent make_request_remaining_present
      make_request_remaining_garbled search_pages_no_budget)

lemma header_examples:
  "x_ratelimit_remaining bare_response = None \<and>
   x_ratelimit_remaining counted_response = Some ''42'' \<and> py_int ''42'' = Inr 42 \<and>
   x_ratelimit_remaining garbled_response = Some ''abc'' \<and> py_int ''abc'' = Inl ValueError \<and>
   status_code bare_response = 502 \<and> status_code counted_response = 200 \<and>
   rate_limit_remaining quiet = 5000"
  by code_simp

theorem remaining_overwritten_witness:
  "x_ratelimit_remaining bare_response = None \<and>
   rate_limit_remaining quiet = 5000 \<and>
   rate_limit_remaining
     (snd (make_request (SearchIssues ''bounty'' 100 1) (Responded bare_response) quiet)) = 0 \<and>
   search_pages ''bounty'' 100 5000 [2, 3] []
     (snd (make_request (SearchIssues ''bounty'' 100 1) (Responded bare_response) quiet)) =
     (Inr [], snd (make_request (SearchIssues ''bounty'' 100 1) (Responded bare_response) quiet)) \<and>
   x_ratelimit_remaining counted_response = Some ''42'' \<and> py_int ''42'' = Inr 42 \<and>
   rate_limit_remaining
     (snd (make_request (SearchIssues ''bounty'' 100 1) (Responded counted_response) quiet)) = 42 \<and>
   x_ratelimit_remaining garbled_response = Some ''abc'' \<and> py_int ''abc'' = Inl ValueError \<and>
   make_request (SearchIssues ''bounty'' 100 1) (Responded garbled_response) quiet =
     (None, quiet\<lparr>sent := sent quiet @ [SearchIssues ''bounty'' 100 1]\<rparr>)"
  using
    remaining_overwritten
      [where r = bare_response and rq = "SearchIssues ''bounty'' 100 1" and w = quiet
        and q = "''bounty''" and per_page = 100 and min_amount = 5000 and pages = "[2, 3]"
        and found = "[]"]
    remaining_overwritten
      [where r = counted_response and v = "''42''" and n = 42
        and rq = "SearchIssues ''bounty'' 100 1" and w = quiet]
    remaining_overwritten
      [where r = garbled_response and v = "''abc''" and e = ValueError
        and rq = "SearchIssues ''bounty'' 100 1" and w = quiet]
    header_examples
  by simp

text \<open>
  Claim C10 as stated fails. The first page of a crawl is answered with status 200 and
  without the rate-limit headers, and the recorded count becomes 0. The repository of the
  page's issue is not stored yet, so it is fetched while the item is processed, and the
  answer to that request carries the header and sets the count to 4999 before the budget
  check is reached again: the crawl goes on and requests page 2. And a response whose
  header is not an integer leaves the recorded count at 5000.
\<close>

theorem pagination_goes_on:
  "x_ratelimit_remaining headerless_page = None \<and>
   rate_limit_remaining
     (snd (make_request (SearchIssues ''bounty in:title,body ($ OR USD OR dollars)'' 100 1)
             (Responded headerless_page) fresh_start)) = 0 \<and>
   sent (snd (search_bounty_issues fresh_start ''bounty'' None 5000 100 5)) =
     [SearchIssues ''bounty in:title,body ($ OR USD OR dollars)'' 100 1,
      GetRepo ''acme/tool'',
      SearchIssues ''bounty in:title,body ($ OR USD OR dollars)'' 100 2] \<and>
   rate_limit_remaining (snd (search_bounty_issues fresh_start ''bounty'' None 5000 100 5)) = 4999 \<and>
   rate_limit_remaining quiet = 5000 \<and>
   x_ratelimit_remaining garbled_response = Some ''abc'' \<and>
   rate_limit_remaining
     (snd (make_request (SearchIssues ''bounty'' 100 1) (Responded garbled_response) quiet)) = 5000"
  by code_simp

end
